theory Spec2Isabelle
  imports Main "HOL-Library.Word" "HOL-Library.Sublist"
begin

section \<open>The WHIP/WHEP relay of examples/whip-whep/main.go\<close>

text \<open>
  The program is a small HTTP service. \<open>main\<close> creates one shared H264 track,
  \<open>whipHandler\<close> accepts a publisher and forwards each packet it reads to that track,
  \<open>whepHandler\<close> attaches a viewer to the track, and \<open>writeAnswer\<close> finishes the
  offer/answer exchange for both.

  The functions of main.go are embedded as state-passing functions over a record of the
  process state. A Go \<open>panic\<close> is the exit value \<open>Panicked\<close>; a handler that waits
  forever on the gathering channel ends in \<open>Blocked\<close>. The outcome of every fallible
  call into the WebRTC engine is an input (record \<open>Env\<close>), so that each
  \<open>if err != nil { panic(err) }\<close> of the source is a branch here.
\<close>

subsection \<open>Values of the engine's interface\<close>

datatype error = Err string

datatype RTPCodecType = RTPCodecTypeAudio | RTPCodecTypeVideo

datatype RTCPFeedback = RTCPFeedback string string

record RTPCodecCapability =
  MimeType :: string
  ClockRate :: "32 word"
  Channels :: "16 word"
  SDPFmtpLine :: string
  RTCPFeedbacks :: "RTCPFeedback list"

record RTPCodecParameters =
  Capability :: RTPCodecCapability
  PayloadType :: "8 word"

definition MimeTypeH264 :: string where
  "MimeTypeH264 = ''video/H264''"

datatype SDPType = SDPTypeOffer | SDPTypePranswer | SDPTypeAnswer | SDPTypeRollback

record SessionDescription =
  Type :: SDPType
  SDP :: string

datatype ICEConnectionState =
    ICEConnectionStateUnknown
  | ICEConnectionStateNew
  | ICEConnectionStateChecking
  | ICEConnectionStateConnected
  | ICEConnectionStateCompleted
  | ICEConnectionStateDisconnected
  | ICEConnectionStateFailed
  | ICEConnectionStateClosed

datatype ICEGatheringState =
    ICEGatheringStateNew
  | ICEGatheringStateGathering
  | ICEGatheringStateComplete

record ICEServer =
  URLs :: "string list"

record Configuration =
  ICEServers :: "ICEServer list"

text \<open>The global \<open>peerConnectionConfiguration\<close> (main.go, lines 28 to 34).\<close>

definition peerConnectionConfiguration :: Configuration where
  "peerConnectionConfiguration =
     \<lparr>ICEServers = [\<lparr>URLs = [''stun:stun.l.google.com:19302'']\<rparr>]\<rparr>"

text \<open>
  The program never looks inside an RTP packet: it passes the pointer it read to
  \<open>WriteRTP\<close>. A packet is therefore an opaque value, named by a number.
\<close>

type_synonym Packet = nat

datatype InterceptorFactory =
    IntervalPliReceiver
  | PacketDumpSender
  | ReportSender
  | DefaultInterceptor string

record MediaEngine =
  videoCodecs :: "RTPCodecParameters list"
  audioCodecs :: "RTPCodecParameters list"

record API =
  mediaEngine :: MediaEngine
  interceptorRegistry :: "InterceptorFactory list"

text \<open>
  A goroutine started by the program: still in its loop, or left it by \<open>return\<close>.
  (Leaving by \<open>panic\<close> ends the process, see \<open>crashed\<close> below.)
\<close>

datatype Goroutine = NotStarted | Running | Exited

text \<open>
  What the program can observe or change of a \<open>*webrtc.PeerConnection\<close>. Tracks are
  referred to by their address in the process state. \<open>received\<close> lists the packets the
  relay track has handed to this connection's sender, oldest first.
\<close>

record PeerConnection =
  api :: API
  configuration :: Configuration
  transceivers :: "RTPCodecType list"
  senders :: "nat list"
  hasOnTrack :: bool
  hasOnICEConnectionStateChange :: bool
  remoteDescription :: "SessionDescription option"
  localDescription :: "SessionDescription option"
  localCandidates :: "string list"
  iceGatheringState :: ICEGatheringState
  isClosed :: bool
  rtcpReader :: Goroutine
  received :: "Packet list"

text \<open>
  A \<open>*webrtc.TrackLocalStaticRTP\<close>: its codec, its two labels and the connections
  currently bound to it (the consumers), by address.
\<close>

record TrackLocalStaticRTP =
  codec :: RTPCodecCapability
  trackID :: string
  streamID :: string
  bindings :: "nat list"

text \<open>
  The process: the heap of tracks, the global pointer \<open>videoTrack\<close> (line 26;
  \<open>None\<close> is Go's nil), the heap of peer connections, and whether an unrecovered
  panic in a goroutine has ended the process.
\<close>

record Server =
  tracks :: "TrackLocalStaticRTP list"
  videoTrack :: "nat option"
  peers :: "PeerConnection list"
  crashed :: "error option"


subsection \<open>The HTTP side\<close>

text \<open>
  A request is its body: reading it (\<open>io.ReadAll\<close>) gives the bytes or an error.
  A response writer has the header map the handler edits, the status line and headers
  once sent (\<open>WriteHeader\<close> freezes them), and the body bytes written so far.
\<close>

record Request =
  Body :: "error + string"

record ResponseWriter =
  Header :: "(string \<times> string) list"
  sent :: "(nat \<times> (string \<times> string) list) option"
  body :: string

definition freshResponse :: ResponseWriter where
  "freshResponse = \<lparr>Header = [], sent = None, body = []\<rparr>"

definition HeaderAdd :: "string \<Rightarrow> string \<Rightarrow> ResponseWriter \<Rightarrow> ResponseWriter" where
  "HeaderAdd k v res = res\<lparr>Header := Header res @ [(k, v)]\<rparr>"

definition WriteHeader :: "nat \<Rightarrow> ResponseWriter \<Rightarrow> ResponseWriter" where
  "WriteHeader code res =
     (case sent res of
        None \<Rightarrow> res\<lparr>sent := Some (code, Header res)\<rparr>
      | Some _ \<Rightarrow> res)"

definition StatusOK :: nat where
  "StatusOK = 200"

definition StatusCreated :: nat where
  "StatusCreated = 201"

text \<open>\<open>fmt.Fprint(res, s)\<close>: a first write without a status sends 200.\<close>

definition Fprint :: "string \<Rightarrow> ResponseWriter \<Rightarrow> ResponseWriter" where
  "Fprint s res =
     (let res' = (case sent res of None \<Rightarrow> WriteHeader StatusOK res | Some _ \<Rightarrow> res)
      in res'\<lparr>body := body res' @ s\<rparr>)"

subsection \<open>What the engine answers\<close>

text \<open>
  One field per fallible call of the three functions, in the order of the source.
  \<open>gathering\<close> is the course of ICE gathering for the connection: \<open>None\<close> when it
  never completes, \<open>Some cs\<close> when it completes having found the candidates \<open>cs\<close>.
  \<open>defaultFeedback\<close> and \<open>defaultInterceptors\<close> are what
  \<open>RegisterDefaultInterceptors\<close> configures; it registers no codec.
  \<open>defaultMediaEngine\<close> is the media engine \<open>webrtc.NewAPI\<close> installs when it is
  given none, as in \<open>whepHandler\<close>.
\<close>

record Env =
  registerCodecErr :: "error option"
  newReceiverInterceptorErr :: "error option"
  registerDefaultInterceptorsErr :: "error option"
  defaultFeedback :: "RTCPFeedback list"
  defaultInterceptors :: "InterceptorFactory list"
  defaultMediaEngine :: MediaEngine
  newPacketDumpErr :: "error option"
  newSenderReportErr :: "error option"
  newPeerConnectionErr :: "error option"
  addTransceiverErr :: "error option"
  addTrackErr :: "error option"
  setRemoteDescriptionErr :: "SessionDescription \<Rightarrow> error option"
  createAnswerResult :: "error + string"
  setLocalDescriptionErr :: "error option"
  gathering :: "string list option"

datatype Exit = Returned | Panicked error | Blocked

subsection \<open>The engine's operations, as the program uses them\<close>

definition updPeer :: "nat \<Rightarrow> (PeerConnection \<Rightarrow> PeerConnection) \<Rightarrow> Server \<Rightarrow> Server" where
  "updPeer i f s = s\<lparr>peers := (peers s)[i := f (peers s ! i)]\<rparr>"

definition updTrack ::
  "nat \<Rightarrow> (TrackLocalStaticRTP \<Rightarrow> TrackLocalStaticRTP) \<Rightarrow> Server \<Rightarrow> Server" where
  "updTrack t f s = s\<lparr>tracks := (tracks s)[t := f (tracks s ! t)]\<rparr>"

text \<open>
  Modelled from the spec: \<open>webrtc.NewTrackLocalStaticRTP\<close> is not among the sources.
  The Relay Track is "one logical media stream identified by codec capability and a
  human label" that starts with no consumer. The call allocates it and returns its
  address.
\<close>

definition NewTrackLocalStaticRTP ::
  "error option \<Rightarrow> RTPCodecCapability \<Rightarrow> string \<Rightarrow> string \<Rightarrow> Server \<Rightarrow> error + (nat \<times> Server)" where
  "NewTrackLocalStaticRTP outcome c tid sid s =
     (case outcome of
        Some err \<Rightarrow> Inl err
      | None \<Rightarrow>
          Inr (length (tracks s),
               s\<lparr>tracks := tracks s @ [\<lparr>codec = c, trackID = tid, streamID = sid, bindings = []\<rparr>]\<rparr>))"

definition emptyMediaEngine :: MediaEngine where
  "emptyMediaEngine = \<lparr>videoCodecs = [], audioCodecs = []\<rparr>"

text \<open>
  Modelled from the spec: \<open>MediaEngine.RegisterCodec\<close> is not among the sources; it
  adds the codec to the "capability set" of its kind.
\<close>

definition RegisterCodec ::
  "Env \<Rightarrow> RTPCodecParameters \<Rightarrow> RTPCodecType \<Rightarrow> MediaEngine \<Rightarrow> error + MediaEngine" where
  "RegisterCodec env c typ m =
     (case registerCodecErr env of
        Some err \<Rightarrow> Inl err
      | None \<Rightarrow>
          Inr (case typ of
                 RTPCodecTypeAudio \<Rightarrow> m\<lparr>audioCodecs := audioCodecs m @ [c]\<rparr>
               | RTPCodecTypeVideo \<Rightarrow> m\<lparr>videoCodecs := videoCodecs m @ [c]\<rparr>))"

definition addFeedback :: "RTCPFeedback list \<Rightarrow> RTPCodecParameters \<Rightarrow> RTPCodecParameters" where
  "addFeedback fb c =
     c\<lparr>Capability := (Capability c)\<lparr>RTCPFeedbacks := RTCPFeedbacks (Capability c) @ fb\<rparr>\<rparr>"

text \<open>
  Modelled from the spec: \<open>webrtc.RegisterDefaultInterceptors\<close> is not among the
  sources; it is one of the "pluggable policy modules" attached per session. It adds
  interceptors to the registry and feedback entries to the codecs already registered.
\<close>

definition RegisterDefaultInterceptors ::
  "Env \<Rightarrow> MediaEngine \<Rightarrow> InterceptorFactory list
     \<Rightarrow> error + (MediaEngine \<times> InterceptorFactory list)" where
  "RegisterDefaultInterceptors env m reg =
     (case registerDefaultInterceptorsErr env of
        Some err \<Rightarrow> Inl err
      | None \<Rightarrow>
          Inr (m\<lparr>videoCodecs := map (addFeedback (defaultFeedback env)) (videoCodecs m)\<rparr>,
               reg @ defaultInterceptors env))"

definition newPeerConnection :: "API \<Rightarrow> Configuration \<Rightarrow> PeerConnection" where
  "newPeerConnection a cfg =
     \<lparr>api = a, configuration = cfg, transceivers = [], senders = [],
      hasOnTrack = False, hasOnICEConnectionStateChange = False,
      remoteDescription = None, localDescription = None, localCandidates = [],
      iceGatheringState = ICEGatheringStateNew, isClosed = False,
      rtcpReader = NotStarted, received = []\<rparr>"

text \<open>
  Modelled from the spec: \<open>api.NewPeerConnection\<close> is not among the sources. It
  "builds a fresh signaling context" with the policy pipeline of the API: a new
  connection on the heap, and its address.
\<close>

definition NewPeerConnection ::
  "Env \<Rightarrow> API \<Rightarrow> Configuration \<Rightarrow> Server \<Rightarrow> error + (nat \<times> Server)" where
  "NewPeerConnection env a cfg s =
     (case newPeerConnectionErr env of
        Some err \<Rightarrow> Inl err
      | None \<Rightarrow> Inr (length (peers s), s\<lparr>peers := peers s @ [newPeerConnection a cfg]\<rparr>))"

text \<open>
  Modelled from the spec: \<open>PeerConnection.AddTransceiverFromKind\<close> is not among the
  sources; it "configures local media handling" by adding a transceiver of the kind.
\<close>

definition AddTransceiverFromKind ::
  "Env \<Rightarrow> RTPCodecType \<Rightarrow> nat \<Rightarrow> Server \<Rightarrow> error + Server" where
  "AddTransceiverFromKind env kind i s =
     (case addTransceiverErr env of
        Some err \<Rightarrow> Inl err
      | None \<Rightarrow> Inr (updPeer i (\<lambda>pc. pc\<lparr>transceivers := transceivers pc @ [kind]\<rparr>) s))"

text \<open>
  \<open>peerConnection.OnTrack(f)\<close> stores the callback; what the callback of lines 114 to
  132 does is \<open>readLoop\<close> and \<open>readRTCPLoop\<close> below.
\<close>

definition OnTrack :: "nat \<Rightarrow> Server \<Rightarrow> Server" where
  "OnTrack i s = updPeer i (\<lambda>pc. pc\<lparr>hasOnTrack := True\<rparr>) s"

text \<open>
  Modelled from the spec: \<open>PeerConnection.AddTrack\<close> is not among the sources. A
  subscriber "registers itself as a consumer of the Relay Track at negotiation time":
  the connection gets a sender for the track and joins the track's consumers.
\<close>

definition AddTrack :: "Env \<Rightarrow> nat \<Rightarrow> nat \<Rightarrow> Server \<Rightarrow> error + Server" where
  "AddTrack env t i s =
     (case addTrackErr env of
        Some err \<Rightarrow> Inl err
      | None \<Rightarrow>
          Inr (updTrack t (\<lambda>tr. tr\<lparr>bindings := bindings tr @ [i]\<rparr>)
                (updPeer i (\<lambda>pc. pc\<lparr>senders := senders pc @ [t],
                                      transceivers := transceivers pc @ [RTPCodecTypeVideo]\<rparr>) s)))"

text \<open>
  \<open>peerConnection.OnICEConnectionStateChange(f)\<close> stores the callback, the engine's
  "connectivity-state-change notification"; what the callback of lines 194 to 200 does
  is \<open>iceConnectionStateChanged\<close> below.
\<close>

definition OnICEConnectionStateChange :: "PeerConnection \<Rightarrow> PeerConnection" where
  "OnICEConnectionStateChange pc = pc\<lparr>hasOnICEConnectionStateChange := True\<rparr>"

text \<open>
  Modelled from the spec: the engine's "set-remote-description" is not among the
  sources. It "sets the remote description from the offer" and fails when the engine
  cannot parse it.
\<close>

definition SetRemoteDescription ::
  "Env \<Rightarrow> SessionDescription \<Rightarrow> PeerConnection \<Rightarrow> error + PeerConnection" where
  "SetRemoteDescription env desc pc =
     (case setRemoteDescriptionErr env desc of
        Some err \<Rightarrow> Inl err
      | None \<Rightarrow> Inr (pc\<lparr>remoteDescription := Some desc\<rparr>))"

text \<open>
  Modelled from the spec: the engine's "create-local-description" is not among the
  sources. It "builds a local answer", of type answer, or fails.
\<close>

definition CreateAnswer :: "Env \<Rightarrow> PeerConnection \<Rightarrow> error + SessionDescription" where
  "CreateAnswer env pc =
     (case createAnswerResult env of
        Inl err \<Rightarrow> Inl err
      | Inr sdp \<Rightarrow> Inr \<lparr>Type = SDPTypeAnswer, SDP = sdp\<rparr>)"

text \<open>
  Modelled from the spec: \<open>PeerConnection.SetLocalDescription\<close> is not among the
  sources. The state after it is "LocalDescriptionCreated", then
  "CandidateGatheringInFlight": the description is stored and gathering starts.
\<close>

definition SetLocalDescription ::
  "Env \<Rightarrow> SessionDescription \<Rightarrow> PeerConnection \<Rightarrow> error + PeerConnection" where
  "SetLocalDescription env desc pc =
     (case setLocalDescriptionErr env of
        Some err \<Rightarrow> Inl err
      | None \<Rightarrow>
          Inr (pc\<lparr>localDescription := Some desc,
                   iceGatheringState := ICEGatheringStateGathering\<rparr>))"

text \<open>
  Modelled from the spec: the "candidate-gathering-complete signal" of the engine
  (\<open>GatheringCompletePromise\<close> is not among the sources). The channel it returns is
  given by what will happen to it: it is never closed when gathering never completes,
  and is closed once gathering is complete, with the candidates found by then.
  Receiving from the channel (line 222) returns when it is closed; the connection then
  has every one of those candidates in its local description.
\<close>

definition GatheringCompletePromise :: "Env \<Rightarrow> PeerConnection \<Rightarrow> string list option" where
  "GatheringCompletePromise env pc = gathering env"

text \<open>
  Modelled from the spec: the receive \<open><-gatherComplete\<close> of line 222, which "blocks
  the calling flow until candidate discovery signals completion"; \<open>None\<close> is the
  receive that never returns.
\<close>

definition awaitGatherComplete ::
  "string list option \<Rightarrow> PeerConnection \<Rightarrow> PeerConnection option" where
  "awaitGatherComplete gatherComplete pc =
     (case gatherComplete of
        None \<Rightarrow> None
      | Some cs \<Rightarrow>
          Some (pc\<lparr>localCandidates := cs, iceGatheringState := ICEGatheringStateComplete\<rparr>))"

text \<open>
  Modelled from the spec: \<open>PeerConnection.LocalDescription\<close> is not among the sources.
  "The returned answer must already enumerate all reachable local candidates": it is
  the description set, with the candidates gathered so far; nil when none was set.
\<close>

definition LocalDescription :: "PeerConnection \<Rightarrow> SessionDescription option" where
  "LocalDescription pc =
     (case localDescription pc of
        None \<Rightarrow> None
      | Some d \<Rightarrow> Some (d\<lparr>SDP := SDP d @ concat (localCandidates pc)\<rparr>))"

subsection \<open>writeAnswer (main.go, lines 191 to 230)\<close>

text \<open>
  The calls of \<open>writeAnswer\<close> that change the connection or the response, and the
  receive from the gathering channel, in the order it makes them: the function returns
  this history next to the connection and the response, so that "written only after"
  can be read off it.
\<close>

datatype Action =
    DidSetRemoteDescription
  | DidCreateAnswer
  | DidSetLocalDescription
  | GatherCompleteFired
  | DidHeaderAdd string string
  | DidWriteHeader nat
  | DidWriteBody string

definition writeAnswer ::
  "Env \<Rightarrow> ResponseWriter \<Rightarrow> PeerConnection \<Rightarrow> string \<Rightarrow> string
     \<Rightarrow> Exit \<times> PeerConnection \<times> ResponseWriter \<times> Action list" where
  "writeAnswer env res peerConnection offer path =
     (let pc0 = OnICEConnectionStateChange peerConnection in
      case SetRemoteDescription env \<lparr>Type = SDPTypeOffer, SDP = offer\<rparr> pc0 of
        Inl err \<Rightarrow> (Panicked err, pc0, res, [])
      | Inr pc1 \<Rightarrow>
     (let gatherComplete = GatheringCompletePromise env pc1 in
      case CreateAnswer env pc1 of
        Inl err \<Rightarrow> (Panicked err, pc1, res, [DidSetRemoteDescription])
      | Inr answer \<Rightarrow>
     (case SetLocalDescription env answer pc1 of
        Inl err \<Rightarrow> (Panicked err, pc1, res, [DidSetRemoteDescription, DidCreateAnswer])
      | Inr pc2 \<Rightarrow>
     (case awaitGatherComplete gatherComplete pc2 of
        None \<Rightarrow>
          (Blocked, pc2, res,
           [DidSetRemoteDescription, DidCreateAnswer, DidSetLocalDescription])
      | Some pc3 \<Rightarrow>
     (let res1 = HeaderAdd ''Location'' path res;
          res2 = WriteHeader StatusCreated res1
      in case LocalDescription pc3 of
           None \<Rightarrow>
             (Panicked (Err ''nil pointer dereference''), pc3, res2,
              [DidSetRemoteDescription, DidCreateAnswer, DidSetLocalDescription,
               GatherCompleteFired, DidHeaderAdd ''Location'' path,
               DidWriteHeader StatusCreated])
         | Some d \<Rightarrow>
             (Returned, pc3, Fprint (SDP d) res2,
              [DidSetRemoteDescription, DidCreateAnswer, DidSetLocalDescription,
               GatherCompleteFired, DidHeaderAdd ''Location'' path,
               DidWriteHeader StatusCreated, DidWriteBody (SDP d)]))))))"

subsection \<open>whipHandler and whepHandler (main.go, lines 55 to 189)\<close>

text \<open>The codec \<open>whipHandler\<close> registers (lines 67 to 72).\<close>

definition H264Parameters :: RTPCodecParameters where
  "H264Parameters =
     \<lparr>Capability = \<lparr>MimeType = MimeTypeH264, ClockRate = 90000, Channels = 0,
                     SDPFmtpLine = [], RTCPFeedbacks = []\<rparr>,
      PayloadType = 96\<rparr>"

definition whipHandler ::
  "Env \<Rightarrow> ResponseWriter \<Rightarrow> Request \<Rightarrow> Server
     \<Rightarrow> Exit \<times> Server \<times> ResponseWriter \<times> Action list" where
  "whipHandler env res req s =
     (case Body req of
        Inl err \<Rightarrow> (Panicked err, s, res, [])
      | Inr offer \<Rightarrow>
     (case RegisterCodec env H264Parameters RTPCodecTypeVideo emptyMediaEngine of
        Inl err \<Rightarrow> (Panicked err, s, res, [])
      | Inr mediaEngine1 \<Rightarrow>
     (case newReceiverInterceptorErr env of
        Some err \<Rightarrow> (Panicked err, s, res, [])
      | None \<Rightarrow>
     (case RegisterDefaultInterceptors env mediaEngine1 [IntervalPliReceiver] of
        Inl err \<Rightarrow> (Panicked err, s, res, [])
      | Inr (mediaEngine2, registry) \<Rightarrow>
     (case NewPeerConnection env
             \<lparr>mediaEngine = mediaEngine2, interceptorRegistry = registry\<rparr>
             peerConnectionConfiguration s of
        Inl err \<Rightarrow> (Panicked err, s, res, [])
      | Inr (peerConnection, s1) \<Rightarrow>
     (case AddTransceiverFromKind env RTPCodecTypeVideo peerConnection s1 of
        Inl err \<Rightarrow> (Panicked err, s1, res, [])
      | Inr s2 \<Rightarrow>
     (let s3 = OnTrack peerConnection s2
      in case writeAnswer env res (peers s3 ! peerConnection) offer ''/whip'' of
           (exit, pc, res', acts) \<Rightarrow>
             (exit, updPeer peerConnection (\<lambda>_. pc) s3, res', acts))))))))"

definition whepHandler ::
  "Env \<Rightarrow> ResponseWriter \<Rightarrow> Request \<Rightarrow> Server
     \<Rightarrow> Exit \<times> Server \<times> ResponseWriter \<times> Action list" where
  "whepHandler env res req s =
     (case Body req of
        Inl err \<Rightarrow> (Panicked err, s, res, [])
      | Inr offer \<Rightarrow>
     (case newPacketDumpErr env of
        Some err \<Rightarrow> (Panicked err, s, res, [])
      | None \<Rightarrow>
     (case newSenderReportErr env of
        Some err \<Rightarrow> (Panicked err, s, res, [])
      | None \<Rightarrow>
     (case NewPeerConnection env
             \<lparr>mediaEngine = defaultMediaEngine env,
              interceptorRegistry = [PacketDumpSender, ReportSender]\<rparr>
             peerConnectionConfiguration s of
        Inl err \<Rightarrow> (Panicked err, s, res, [])
      | Inr (peerConnection, s1) \<Rightarrow>
     (case videoTrack s1 of
        None \<Rightarrow> (Panicked (Err ''nil pointer dereference''), s1, res, [])
      | Some t \<Rightarrow>
     (case AddTrack env t peerConnection s1 of
        Inl err \<Rightarrow> (Panicked err, s1, res, [])
      | Inr s2 \<Rightarrow>
     (let s3 = updPeer peerConnection (\<lambda>pc. pc\<lparr>rtcpReader := Running\<rparr>) s2
      in case writeAnswer env res (peers s3 ! peerConnection) offer ''/whep'' of
           (exit, pc, res', acts) \<Rightarrow>
             (exit, updPeer peerConnection (\<lambda>_. pc) s3, res', acts))))))))"

subsection \<open>The goroutines (lines 114 to 132 and 178 to 185)\<close>

text \<open>
  What one call of the relay's \<open>WriteRTP\<close> does outside the program's control: the
  error it returns, and the consumers it could not deliver to.
\<close>

record WriteOutcome =
  writeErr :: "error option"
  dropped :: "nat list"

definition deliverTo :: "Packet \<Rightarrow> nat \<Rightarrow> PeerConnection list \<Rightarrow> PeerConnection list" where
  "deliverTo pkt c ps =
     (if c < length ps then ps[c := (ps ! c)\<lparr>received := received (ps ! c) @ [pkt]\<rparr>] else ps)"

text \<open>The consumers registered with the track at an address of the heap.\<close>

definition consumers :: "Server \<Rightarrow> nat \<Rightarrow> nat list" where
  "consumers s t = (if t < length (tracks s) then bindings (tracks s ! t) else [])"

text \<open>
  Modelled from the spec: \<open>TrackLocalStaticRTP.WriteRTP\<close> is not among the sources.
  It "delivers the packet to every currently registered consumer; a delivery failure to
  one consumer does not block or fail delivery to others".
\<close>

definition WriteRTP :: "WriteOutcome \<Rightarrow> Packet \<Rightarrow> nat \<Rightarrow> Server \<Rightarrow> error option \<times> Server" where
  "WriteRTP w pkt t s =
     (writeErr w,
      s\<lparr>peers := fold (deliverTo pkt)
                    (filter (\<lambda>c. c \<notin> set (dropped w)) (consumers s t))
                    (peers s)\<rparr>)"

text \<open>
  One turn of the loop of lines 123 to 131, given what \<open>track.ReadRTP\<close> returned:
  \<open>Some err\<close> is \<open>panic(err)\<close>, \<open>None\<close> goes round again.
\<close>

definition forwardPacket ::
  "error + Packet \<Rightarrow> WriteOutcome \<Rightarrow> Server \<Rightarrow> error option \<times> Server" where
  "forwardPacket r w s =
     (case r of
        Inl err \<Rightarrow> (Some err, s)
      | Inr pkt \<Rightarrow>
          (case videoTrack s of
             None \<Rightarrow> (Some (Err ''nil pointer dereference''), s)
           | Some t \<Rightarrow> WriteRTP w pkt t s))"

datatype Loop = InLoop | LoopReturned | LoopPanicked error

text \<open>
  The loop itself, run against the results of its successive reads. It has no exit but
  the panics; when the script is used up the loop is waiting in \<open>ReadRTP\<close>.
\<close>

fun readLoop :: "((error + Packet) \<times> WriteOutcome) list \<Rightarrow> Server \<Rightarrow> Loop \<times> Server" where
  "readLoop [] s = (InLoop, s)"
| "readLoop ((r, w) # rest) s =
     (case forwardPacket r w s of
        (Some err, s') \<Rightarrow> (LoopPanicked err, s')
      | (None, s') \<Rightarrow> readLoop rest s')"

text \<open>The goroutine of lines 115 to 122, against the results of \<open>receiver.ReadRTCP\<close>.\<close>

fun readRTCPLoop :: "error option list \<Rightarrow> Loop" where
  "readRTCPLoop [] = InLoop"
| "readRTCPLoop (rtcpErr # rest) =
     (case rtcpErr of
        Some err \<Rightarrow> LoopPanicked err
      | None \<Rightarrow> readRTCPLoop rest)"

text \<open>The goroutine of lines 178 to 185, against the results of \<open>rtpSender.Read\<close>.\<close>

fun senderReadLoop :: "error option list \<Rightarrow> Loop" where
  "senderReadLoop [] = InLoop"
| "senderReadLoop (rtcpErr # rest) =
     (case rtcpErr of
        Some err \<Rightarrow> LoopReturned
      | None \<Rightarrow> senderReadLoop rest)"

subsection \<open>main (lines 38 to 53) and the running process\<close>

text \<open>
  \<open>main\<close> up to \<open>ListenAndServe\<close>: it creates the track and stores its address in the
  global. \<open>Inl err\<close> is \<open>panic(err)\<close>.
\<close>

definition main :: "error option \<Rightarrow> Server \<Rightarrow> error + Server" where
  "main outcome s =
     (case NewTrackLocalStaticRTP outcome
             \<lparr>MimeType = MimeTypeH264, ClockRate = 0, Channels = 0,
              SDPFmtpLine = [], RTCPFeedbacks = []\<rparr> ''video'' ''pion'' s of
        Inl err \<Rightarrow> Inl err
      | Inr (t, s') \<Rightarrow> Inr (s'\<lparr>videoTrack := Some t\<rparr>))"

text \<open>
  Modelled from the spec: \<open>PeerConnection.Close\<close> is not among the sources. Teardown
  releases the session's resources and removes it "from any shared registry (for WHEP,
  removal from the Relay Track's consumer set)".
\<close>

definition Close :: "nat \<Rightarrow> Server \<Rightarrow> Server" where
  "Close i s =
     (updPeer i (\<lambda>pc. pc\<lparr>isClosed := True\<rparr>) s)
       \<lparr>tracks := map (\<lambda>tr. tr\<lparr>bindings := removeAll i (bindings tr)\<rparr>) (tracks s)\<rparr>"

text \<open>The callback of lines 194 to 200 (its \<open>Printf\<close> changes no state).\<close>

definition iceConnectionStateChanged :: "nat \<Rightarrow> ICEConnectionState \<Rightarrow> Server \<Rightarrow> Server" where
  "iceConnectionStateChanged peerConnection connectionState s =
     (if connectionState = ICEConnectionStateFailed then Close peerConnection s else s)"

text \<open>
  What happens to the running process, one event at a time: a request served by a
  handler, one turn of a goroutine's loop with the result of its read, or a change of a
  connection's ICE state. A request is served in one step, from reading its body to the
  handler's exit; the turns of the goroutines and the ICE changes come between
  requests, in any order. A handler's panic is caught by \<open>net/http\<close> and ends that
  request only, with the state as the handler left it; the callbacks of \<open>OnTrack\<close> run
  in goroutines of their own, where a panic ends the process, after which nothing
  happens. A goroutine's turn is possible once its callback is installed.
\<close>

datatype Event =
    PostWhip Env Request
  | PostWhep Env Request
  | ReadRTP nat "error + Packet" WriteOutcome
  | ReadRTCP nat "error option"
  | SenderRead nat "error option"
  | ICEConnectionStateChange nat ICEConnectionState

definition ErrClosed :: error where
  "ErrClosed = Err ''EOF''"

text \<open>
  Modelled from the spec: reads on a closed session (the engine's read primitives are
  not among the sources). "Lingering goroutines/tasks reading from a closed source must
  observe an error": a read on a closed connection returns an error whatever arrives.
\<close>

definition readResult :: "PeerConnection \<Rightarrow> error + Packet \<Rightarrow> error + Packet" where
  readResult [simp]: "readResult pc r = (if isClosed pc then Inl ErrClosed else r)"

text \<open>
  Modelled from the spec: the same for the reads of RTCP, which give the program an
  error or nothing it looks at.
\<close>

definition readError :: "PeerConnection \<Rightarrow> error option \<Rightarrow> error option" where
  readError [simp]: "readError pc r = (if isClosed pc then Some ErrClosed else r)"

definition panicWith :: "error \<Rightarrow> Server \<Rightarrow> Server" where
  "panicWith err s = s\<lparr>crashed := Some err\<rparr>"

fun handle :: "Event \<Rightarrow> Server \<Rightarrow> Server" where
  "handle (PostWhip env req) s =
     (case whipHandler env freshResponse req s of (exit, s', res, acts) \<Rightarrow> s')"
| "handle (PostWhep env req) s =
     (case whepHandler env freshResponse req s of (exit, s', res, acts) \<Rightarrow> s')"
| "handle (ReadRTP i r w) s =
     (if i < length (peers s) \<and> hasOnTrack (peers s ! i) then
        (case forwardPacket (readResult (peers s ! i) r) w s of
           (Some err, s') \<Rightarrow> panicWith err s'
         | (None, s') \<Rightarrow> s')
      else s)"
| "handle (ReadRTCP i r) s =
     (if i < length (peers s) \<and> hasOnTrack (peers s ! i) then
        (case readRTCPLoop [readError (peers s ! i) r] of
           LoopPanicked err \<Rightarrow> panicWith err s
         | _ \<Rightarrow> s)
      else s)"
| "handle (SenderRead i r) s =
     (if i < length (peers s) \<and> rtcpReader (peers s ! i) = Running then
        (case senderReadLoop [readError (peers s ! i) r] of
           LoopReturned \<Rightarrow> updPeer i (\<lambda>pc. pc\<lparr>rtcpReader := Exited\<rparr>) s
         | _ \<Rightarrow> s)
      else s)"
| "handle (ICEConnectionStateChange i st) s =
     (if i < length (peers s) \<and> hasOnICEConnectionStateChange (peers s ! i)
      then iceConnectionStateChanged i st s else s)"

definition step :: "Event \<Rightarrow> Server \<Rightarrow> Server" where
  "step ev s = (if crashed s = None then handle ev s else s)"

fun run :: "Event list \<Rightarrow> Server \<Rightarrow> Server" where
  "run [] s = s"
| "run (ev # evs) s = run evs (step ev s)"

text \<open>
  The routes \<open>main\<close> registers (lines 48 and 49). Every other path goes to the file
  server of line 47, which is outside this development.
\<close>

definition route ::
  "string \<Rightarrow> (Env \<Rightarrow> ResponseWriter \<Rightarrow> Request \<Rightarrow> Server
               \<Rightarrow> Exit \<times> Server \<times> ResponseWriter \<times> Action list) option" where
  "route path =
     (if path = ''/whep'' then Some whepHandler
      else if path = ''/whip'' then Some whipHandler
      else None)"

subsection \<open>The Writer interface (pkg/media/media.go, lines 29 to 35)\<close>

text \<open>
  Modelled from the spec: media.go declares the interface only, no implementation of it
  is among the sources. A Packet Sink "can accept one packet and either succeed or fail
  with an I/O error", and \<open>Close\<close> "releases resources; repeated calls after the first
  success return success". The sink holds one resource; \<open>released\<close> counts how often
  it has been given back. The first argument of each operation is the outcome of the
  underlying I/O.
\<close>

record Writer =
  isOpen :: bool
  released :: nat
  accepted :: "Packet list"

definition newWriter :: Writer where
  "newWriter = \<lparr>isOpen = True, released = 0, accepted = []\<rparr>"

definition Writer_WriteRTP :: "error option \<Rightarrow> Packet \<Rightarrow> Writer \<Rightarrow> error option \<times> Writer" where
  "Writer_WriteRTP io pkt w =
     (if \<not> isOpen w then (Some (Err ''SinkClosed''), w)
      else case io of
             Some err \<Rightarrow> (Some err, w)
           | None \<Rightarrow> (None, w\<lparr>accepted := accepted w @ [pkt]\<rparr>))"

definition Writer_Close :: "error option \<Rightarrow> Writer \<Rightarrow> error option \<times> Writer" where
  "Writer_Close io w =
     (if \<not> isOpen w then (None, w)
      else case io of
             Some err \<Rightarrow> (Some err, w)
           | None \<Rightarrow> (None, w\<lparr>isOpen := False, released := Suc (released w)\<rparr>))"

subsection \<open>Notions used to state the properties\<close>

text \<open>The publisher sessions in being: connections with the forwarding callback, not closed.\<close>

definition publishers :: "Server \<Rightarrow> nat list" where
  "publishers s =
     filter (\<lambda>i. hasOnTrack (peers s ! i) \<and> \<not> isClosed (peers s ! i)) [0 ..< length (peers s)]"

text \<open>The packets the publishers' read loops are handed in a run of events, in order.\<close>

fun packetsOf :: "Event list \<Rightarrow> Packet list" where
  "packetsOf [] = []"
| "packetsOf (ReadRTP i (Inr pkt) w # evs) = pkt # packetsOf evs"
| "packetsOf (ev # evs) = packetsOf evs"

text \<open>The error, if any, that ends one turn of the publisher's loop.\<close>

definition failure :: "(error + Packet) \<times> WriteOutcome \<Rightarrow> error option" where
  "failure rw = (case fst rw of Inl err \<Rightarrow> Some err | Inr pkt \<Rightarrow> writeErr (snd rw))"

text \<open>
  Every consumer of every track is a connection of the heap, listed once, and the global
  \<open>videoTrack\<close>, when set, is the address of a track of the heap.
\<close>

definition boundOnce :: "Server \<Rightarrow> bool" where
  "boundOnce s \<longleftrightarrow>
     list_all (\<lambda>tr. distinct (bindings tr) \<and> list_all (\<lambda>c. c < length (peers s)) (bindings tr))
       (tracks s) \<and>
     (case videoTrack s of None \<Rightarrow> True | Some t \<Rightarrow> t < length (tracks s))"






subsection \<open>A concrete engine and process, for the examples\<close>

text \<open>
  An engine in which every call succeeds, except that it rejects the empty offer;
  gathering completes with one candidate, and the default media engine knows VP8 with
  payload type 96 and H264 with payload type 102.
\<close>

definition okEnv :: Env where
  "okEnv =
     \<lparr>registerCodecErr = None, newReceiverInterceptorErr = None,
      registerDefaultInterceptorsErr = None,
      defaultFeedback = [RTCPFeedback ''nack'' []],
      defaultInterceptors = [DefaultInterceptor ''nack''],
      defaultMediaEngine =
        \<lparr>videoCodecs =
           [\<lparr>Capability = \<lparr>MimeType = ''video/VP8'', ClockRate = 90000, Channels = 0,
                            SDPFmtpLine = [], RTCPFeedbacks = []\<rparr>,
             PayloadType = 96\<rparr>,
            \<lparr>Capability = \<lparr>MimeType = MimeTypeH264, ClockRate = 90000, Channels = 0,
                            SDPFmtpLine = [], RTCPFeedbacks = []\<rparr>,
             PayloadType = 102\<rparr>],
         audioCodecs = []\<rparr>,
      newPacketDumpErr = None, newSenderReportErr = None,
      newPeerConnectionErr = None, addTransceiverErr = None, addTrackErr = None,
      setRemoteDescriptionErr =
        (\<lambda>d. if SDP d = [] then Some (Err ''MalformedOffer'') else None),
      createAnswerResult = Inr ''v=0;'',
      setLocalDescriptionErr = None,
      gathering = Some [''a=candidate:1;'']\<rparr>"

definition okRequest :: Request where
  "okRequest = \<lparr>Body = Inr ''v=0;offer''\<rparr>"

definition emptyRequest :: Request where
  "emptyRequest = \<lparr>Body = Inr []\<rparr>"

definition delivered :: WriteOutcome where
  "delivered = \<lparr>writeErr = None, dropped = []\<rparr>"

definition writeFailed :: WriteOutcome where
  "writeFailed = \<lparr>writeErr = Some (Err ''io: closed pipe''), dropped = [1]\<rparr>"

text \<open>The process as \<open>main\<close> leaves it when the track could be created.\<close>

definition started :: Server where
  "started =
     \<lparr>tracks = [\<lparr>codec = \<lparr>MimeType = MimeTypeH264, ClockRate = 0, Channels = 0,
                          SDPFmtpLine = [], RTCPFeedbacks = []\<rparr>,
                 trackID = ''video'', streamID = ''pion'', bindings = []\<rparr>],
      videoTrack = Some 0, peers = [], crashed = None\<rparr>"

text \<open>
  The connection each handler has built when it reaches \<open>writeAnswer\<close>, before the calls
  that follow \<open>NewPeerConnection\<close>.
\<close>

definition whipConn :: "Env \<Rightarrow> PeerConnection" where
  "whipConn env =
     newPeerConnection
       \<lparr>mediaEngine =
          \<lparr>videoCodecs = [addFeedback (defaultFeedback env) H264Parameters], audioCodecs = []\<rparr>,
        interceptorRegistry = IntervalPliReceiver # defaultInterceptors env\<rparr>
       peerConnectionConfiguration"

definition whepConn :: "Env \<Rightarrow> PeerConnection" where
  "whepConn env =
     newPeerConnection
       \<lparr>mediaEngine = defaultMediaEngine env,
        interceptorRegistry = [PacketDumpSender, ReportSender]\<rparr>
       peerConnectionConfiguration"

text \<open>Every call a handler makes before \<open>writeAnswer\<close> succeeds.\<close>

definition reachesWriteAnswer :: "string \<Rightarrow> Env \<Rightarrow> Request \<Rightarrow> Server \<Rightarrow> bool" where
  "reachesWriteAnswer path env req s \<longleftrightarrow>
     isl (Body req) = False \<and> newPeerConnectionErr env = None \<and>
     (if path = ''/whip''
      then registerCodecErr env = None \<and> newReceiverInterceptorErr env = None \<and>
           registerDefaultInterceptorsErr env = None \<and> addTransceiverErr env = None
      else newPacketDumpErr env = None \<and> newSenderReportErr env = None \<and>
           videoTrack s \<noteq> None \<and> addTrackErr env = None)"

text \<open>
  The two connections of the examples: a publisher and a subscriber, as the handlers
  leave them with the engine above.
\<close>

definition pubConn :: PeerConnection where
  "pubConn =
     (whipConn okEnv)
       \<lparr>transceivers := [RTPCodecTypeVideo], hasOnTrack := True,
        hasOnICEConnectionStateChange := True,
        remoteDescription := Some \<lparr>Type = SDPTypeOffer, SDP = ''v=0;offer''\<rparr>,
        localDescription := Some \<lparr>Type = SDPTypeAnswer, SDP = ''v=0;''\<rparr>,
        localCandidates := [''a=candidate:1;''],
        iceGatheringState := ICEGatheringStateComplete\<rparr>"

definition subConn :: PeerConnection where
  "subConn =
     (whepConn okEnv)
       \<lparr>senders := [0], transceivers := [RTPCodecTypeVideo], rtcpReader := Running,
        hasOnICEConnectionStateChange := True,
        remoteDescription := Some \<lparr>Type = SDPTypeOffer, SDP = ''v=0;offer''\<rparr>,
        localDescription := Some \<lparr>Type = SDPTypeAnswer, SDP = ''v=0;''\<rparr>,
        localCandidates := [''a=candidate:1;''],
        iceGatheringState := ICEGatheringStateComplete\<rparr>"

text \<open>
  The process after one publisher (connection 0) and then one subscriber (connection 1)
  have been accepted.
\<close>

definition live :: Server where
  "live = run [PostWhip okEnv okRequest, PostWhep okEnv okRequest] started"

text \<open>What a handler sends and does for \<open>okRequest\<close> with the engine \<open>okEnv\<close>.\<close>

definition okResponse :: "string \<Rightarrow> ResponseWriter" where
  "okResponse path =
     \<lparr>Header = [(''Location'', path)], sent = Some (201, [(''Location'', path)]),
      body = ''v=0;a=candidate:1;''\<rparr>"

definition okActions :: "string \<Rightarrow> Action list" where
  "okActions path =
     [DidSetRemoteDescription, DidCreateAnswer, DidSetLocalDescription,
      GatherCompleteFired, DidHeaderAdd ''Location'' path,
      DidWriteHeader 201, DidWriteBody ''v=0;a=candidate:1;'']"

section \<open>Properties\<close>

subsection \<open>Facts about the handlers\<close>

lemma updPeer_fresh:
  "updPeer (length (peers s)) f (s\<lparr>peers := peers s @ [p]\<rparr>) = s\<lparr>peers := peers s @ [f p]\<rparr>"
  by (simp add: updPeer_def)

lemmas writeAnswer_defs =
  writeAnswer_def Let_def GatheringCompletePromise_def awaitGatherComplete_def
  SetLocalDescription_def CreateAnswer_def
  SetRemoteDescription_def OnICEConnectionStateChange_def LocalDescription_def

lemma writeAnswer_Returned:
  assumes "writeAnswer env res pc offer path = (Returned, pc', res', acts)"
  shows "\<exists>cs sdp.
           gathering env = Some cs \<and> createAnswerResult env = Inr sdp \<and>
           LocalDescription pc' = Some \<lparr>Type = SDPTypeAnswer, SDP = sdp @ concat cs\<rparr> \<and>
           iceGatheringState pc' = ICEGatheringStateComplete \<and> localCandidates pc' = cs \<and>
           res' = Fprint (sdp @ concat cs)
                    (WriteHeader StatusCreated (HeaderAdd ''Location'' path res)) \<and>
           acts = [DidSetRemoteDescription, DidCreateAnswer, DidSetLocalDescription,
                   GatherCompleteFired, DidHeaderAdd ''Location'' path,
                   DidWriteHeader StatusCreated, DidWriteBody (sdp @ concat cs)]"
  using assms by (auto simp: writeAnswer_defs split: sum.splits option.splits)

lemma writeAnswer_frame:
  assumes "writeAnswer env res pc offer path = (exit, pc', res', acts)"
  shows "api pc' = api pc \<and> configuration pc' = configuration pc \<and>
         transceivers pc' = transceivers pc \<and> senders pc' = senders pc \<and>
         hasOnTrack pc' = hasOnTrack pc \<and> hasOnICEConnectionStateChange pc' \<and>
         isClosed pc' = isClosed pc \<and> rtcpReader pc' = rtcpReader pc \<and>
         received pc' = received pc"
  using assms by (auto simp: writeAnswer_defs split: sum.splits option.splits)

lemma writeAnswer_not_Returned:
  assumes "writeAnswer env res pc offer path = (exit, pc', res', acts)"
      and "exit \<noteq> Returned"
  shows "res' = res \<and> GatherCompleteFired \<notin> set acts \<and> (\<forall>b. DidWriteBody b \<notin> set acts)"
  using assms by (auto simp: writeAnswer_defs split: sum.splits option.splits)

lemma writeAnswer_rejected:
  assumes "writeAnswer env res pc offer path = (exit, pc', res', acts)"
      and "setRemoteDescriptionErr env \<lparr>Type = SDPTypeOffer, SDP = offer\<rparr> = Some err"
  shows "exit = Panicked err \<and> res' = res \<and> acts = [] \<and>
         pc' = pc\<lparr>hasOnICEConnectionStateChange := True\<rparr>"
  using assms by (auto simp: writeAnswer_defs split: sum.splits option.splits)

lemma whipHandler_cases:
  assumes "whipHandler env res req s = (exit, s', res', acts)"
  shows "(s' = s \<and> res' = res \<and> acts = [] \<and> (\<exists>e. exit = Panicked e) \<and>
          \<not> reachesWriteAnswer ''/whip'' env req s)
       \<or> (s' = s\<lparr>peers := peers s @ [whipConn env]\<rparr> \<and> res' = res \<and> acts = [] \<and>
          (\<exists>e. exit = Panicked e) \<and> \<not> reachesWriteAnswer ''/whip'' env req s)
       \<or> (\<exists>offer pc'. Body req = Inr offer \<and>
             writeAnswer env res
               ((whipConn env)\<lparr>transceivers := [RTPCodecTypeVideo], hasOnTrack := True\<rparr>)
               offer ''/whip'' = (exit, pc', res', acts) \<and>
             s' = s\<lparr>peers := peers s @ [pc']\<rparr> \<and>
             reachesWriteAnswer ''/whip'' env req s)"
  using assms unfolding whipHandler_def
  by (auto simp: Let_def RegisterCodec_def emptyMediaEngine_def RegisterDefaultInterceptors_def
        NewPeerConnection_def AddTransceiverFromKind_def OnTrack_def updPeer_fresh whipConn_def
        newPeerConnection_def reachesWriteAnswer_def
      split: sum.splits option.splits prod.splits)

lemma whepHandler_cases:
  assumes "whepHandler env res req s = (exit, s', res', acts)"
  shows "(s' = s \<and> res' = res \<and> acts = [] \<and> (\<exists>e. exit = Panicked e) \<and>
          \<not> reachesWriteAnswer ''/whep'' env req s)
       \<or> (s' = s\<lparr>peers := peers s @ [whepConn env]\<rparr> \<and> res' = res \<and> acts = [] \<and>
          (\<exists>e. exit = Panicked e) \<and> \<not> reachesWriteAnswer ''/whep'' env req s)
       \<or> (\<exists>offer t pc'. Body req = Inr offer \<and> videoTrack s = Some t \<and>
             writeAnswer env res
               ((whepConn env)\<lparr>senders := [t], transceivers := [RTPCodecTypeVideo],
                          rtcpReader := Running\<rparr>)
               offer ''/whep'' = (exit, pc', res', acts) \<and>
             s' = s\<lparr>peers := peers s @ [pc'],
                    tracks := (tracks s)[t := (tracks s ! t)
                      \<lparr>bindings := bindings (tracks s ! t) @ [length (peers s)]\<rparr>]\<rparr> \<and>
             reachesWriteAnswer ''/whep'' env req s)"
  using assms unfolding whepHandler_def
  by (auto simp: Let_def NewPeerConnection_def AddTrack_def updPeer_def updTrack_def whepConn_def
        newPeerConnection_def reachesWriteAnswer_def
      split: sum.splits option.splits prod.splits)

lemma route_cases:
  "route path = Some h \<Longrightarrow>
     (path = ''/whip'' \<and> h = whipHandler) \<or> (path = ''/whep'' \<and> h = whepHandler)"
  by (auto simp: route_def split: if_splits)

lemma whipConn_fresh:
  "isClosed ((whipConn env)\<lparr>transceivers := ts, hasOnTrack := b\<rparr>) = False \<and>
   remoteDescription ((whipConn env)\<lparr>transceivers := ts, hasOnTrack := b\<rparr>) = None \<and>
   received ((whipConn env)\<lparr>transceivers := ts, hasOnTrack := b\<rparr>) = []"
  by (simp add: whipConn_def newPeerConnection_def)

lemma whepConn_fresh:
  "isClosed ((whepConn env)\<lparr>senders := ss, transceivers := ts, rtcpReader := g\<rparr>) = False \<and>
   remoteDescription ((whepConn env)\<lparr>senders := ss, transceivers := ts, rtcpReader := g\<rparr>) = None \<and>
   received ((whepConn env)\<lparr>senders := ss, transceivers := ts, rtcpReader := g\<rparr>) = []"
  by (simp add: whepConn_def newPeerConnection_def)

lemma handler_cases:
  assumes "route path = Some h" and "h env res req s = (exit, s', res', acts)"
  shows "(res' = res \<and> acts = [] \<and> (\<exists>e. exit = Panicked e) \<and>
          \<not> reachesWriteAnswer path env req s \<and> videoTrack s' = videoTrack s)
       \<or> (\<exists>offer pc pc'. Body req = Inr offer \<and>
             writeAnswer env res pc offer path = (exit, pc', res', acts) \<and>
             peers s' = peers s @ [pc'] \<and> videoTrack s' = videoTrack s \<and>
             isClosed pc = False \<and> remoteDescription pc = None \<and> received pc = [] \<and>
             reachesWriteAnswer path env req s)"
  using route_cases[OF assms(1)]
proof
  assume a: "path = ''/whip'' \<and> h = whipHandler"
  with assms(2) have "whipHandler env res req s = (exit, s', res', acts)" by simp
  from whipHandler_cases[OF this] show ?thesis
  proof (elim disjE)
    assume "\<exists>offer pc'. Body req = Inr offer \<and>
             writeAnswer env res
               ((whipConn env)\<lparr>transceivers := [RTPCodecTypeVideo], hasOnTrack := True\<rparr>)
               offer ''/whip'' = (exit, pc', res', acts) \<and>
             s' = s\<lparr>peers := peers s @ [pc']\<rparr> \<and>
             reachesWriteAnswer ''/whip'' env req s"
    then obtain offer pc' where
      "Body req = Inr offer"
      "writeAnswer env res
         ((whipConn env)\<lparr>transceivers := [RTPCodecTypeVideo], hasOnTrack := True\<rparr>)
         offer ''/whip'' = (exit, pc', res', acts)"
      "s' = s\<lparr>peers := peers s @ [pc']\<rparr>" "reachesWriteAnswer ''/whip'' env req s"
      by blast
    with a whipConn_fresh[where env = env and ts = "[RTPCodecTypeVideo]" and b = True] show ?thesis
      by (intro disjI2 exI[of _ offer] exI[of _ pc']
            exI[of _ "(whipConn env)\<lparr>transceivers := [RTPCodecTypeVideo], hasOnTrack := True\<rparr>"])
         simp
  qed (use a in auto)
next
  assume a: "path = ''/whep'' \<and> h = whepHandler"
  with assms(2) have "whepHandler env res req s = (exit, s', res', acts)" by simp
  from whepHandler_cases[OF this] show ?thesis
  proof (elim disjE)
    assume "\<exists>offer t pc'. Body req = Inr offer \<and> videoTrack s = Some t \<and>
             writeAnswer env res
               ((whepConn env)\<lparr>senders := [t], transceivers := [RTPCodecTypeVideo],
                          rtcpReader := Running\<rparr>)
               offer ''/whep'' = (exit, pc', res', acts) \<and>
             s' = s\<lparr>peers := peers s @ [pc'],
                    tracks := (tracks s)[t := (tracks s ! t)
                      \<lparr>bindings := bindings (tracks s ! t) @ [length (peers s)]\<rparr>]\<rparr> \<and>
             reachesWriteAnswer ''/whep'' env req s"
    then obtain offer t pc' where
      "Body req = Inr offer"
      "writeAnswer env res
         ((whepConn env)\<lparr>senders := [t], transceivers := [RTPCodecTypeVideo], rtcpReader := Running\<rparr>)
         offer ''/whep'' = (exit, pc', res', acts)"
      "s' = s\<lparr>peers := peers s @ [pc'],
              tracks := (tracks s)[t := (tracks s ! t)
                \<lparr>bindings := bindings (tracks s ! t) @ [length (peers s)]\<rparr>]\<rparr>"
      "reachesWriteAnswer ''/whep'' env req s"
      by blast
    with a whepConn_fresh[where ss = "[t]" and ts = "[RTPCodecTypeVideo]" and g = Running] show ?thesis
      by (intro disjI2 exI[of _ offer] exI[of _ pc']
            exI[of _ "(whepConn env)\<lparr>senders := [t], transceivers := [RTPCodecTypeVideo],
                               rtcpReader := Running\<rparr>"])
         simp
  qed (use a in auto)
qed

lemma fresh_response_written:
  "sent (Fprint b (WriteHeader StatusCreated (HeaderAdd ''Location'' path freshResponse)))
     = Some (201, [(''Location'', path)]) \<and>
   body (Fprint b (WriteHeader StatusCreated (HeaderAdd ''Location'' path freshResponse))) = b"
  by (simp add: Fprint_def WriteHeader_def HeaderAdd_def freshResponse_def StatusCreated_def)

lemma started_whip:
  "whipHandler okEnv freshResponse okRequest started =
     (Returned,
      started\<lparr>peers := [(whipConn okEnv)
         \<lparr>transceivers := [RTPCodecTypeVideo], hasOnTrack := True,
          hasOnICEConnectionStateChange := True,
          remoteDescription := Some \<lparr>Type = SDPTypeOffer, SDP = ''v=0;offer''\<rparr>,
          localDescription := Some \<lparr>Type = SDPTypeAnswer, SDP = ''v=0;''\<rparr>,
          localCandidates := [''a=candidate:1;''],
          iceGatheringState := ICEGatheringStateComplete\<rparr>]\<rparr>,
      \<lparr>Header = [(''Location'', ''/whip'')], sent = Some (201, [(''Location'', ''/whip'')]),
       body = ''v=0;a=candidate:1;''\<rparr>,
      [DidSetRemoteDescription, DidCreateAnswer, DidSetLocalDescription,
       GatherCompleteFired, DidHeaderAdd ''Location'' ''/whip'',
       DidWriteHeader 201, DidWriteBody ''v=0;a=candidate:1;''])"
  by (simp add: whipHandler_def okEnv_def okRequest_def started_def writeAnswer_defs
        RegisterCodec_def emptyMediaEngine_def RegisterDefaultInterceptors_def
        NewPeerConnection_def AddTransceiverFromKind_def OnTrack_def updPeer_def whipConn_def
        newPeerConnection_def Fprint_def WriteHeader_def HeaderAdd_def freshResponse_def
        StatusCreated_def)

subsection \<open>The response to a successful negotiation\<close>

text \<open>
  C7. When a handler registered for a path returns, the response it has sent has status
  201 and the single header \<open>Location\<close> whose value is that path (\<open>/whip\<close> for
  \<open>whipHandler\<close>, \<open>/whep\<close> for \<open>whepHandler\<close>), and the body is the SDP of the local
  description of the connection the request created.
\<close>

theorem created_location_answer:
  assumes "route path = Some h"
      and "h env freshResponse req s = (Returned, s', res', acts)"
  shows "sent res' = Some (201, [(''Location'', path)]) \<and>
         map_option SDP (LocalDescription (last (peers s'))) = Some (body res')"
proof -
  from handler_cases[OF assms] obtain offer pc pc' where
    w: "writeAnswer env freshResponse pc offer path = (Returned, pc', res', acts)"
    and p: "peers s' = peers s @ [pc']" by blast
  from writeAnswer_Returned[OF w] obtain b where
    d: "LocalDescription pc' = Some \<lparr>Type = SDPTypeAnswer, SDP = b\<rparr>"
    and r: "res' = Fprint b (WriteHeader StatusCreated (HeaderAdd ''Location'' path freshResponse))"
    by blast
  from r fresh_response_written[of b path]
  have "sent res' = Some (201, [(''Location'', path)])" and "body res' = b" by simp_all
  with d p show ?thesis by simp
qed

theorem created_location_answer_witness:
  "route ''/whip'' = Some whipHandler \<and>
   fst (whipHandler okEnv freshResponse okRequest started) = Returned \<and>
   sent (fst (snd (snd (whipHandler okEnv freshResponse okRequest started))))
     = Some (201, [(''Location'', ''/whip'')]) \<and>
   body (fst (snd (snd (whipHandler okEnv freshResponse okRequest started))))
     = ''v=0;a=candidate:1;''"
proof -
  have r: "route ''/whip'' = Some whipHandler" by (simp add: route_def)
  from created_location_answer[OF r started_whip] started_whip r
  show ?thesis by simp
qed

lemmas handler_eval =
  whipHandler_def whepHandler_def okEnv_def okRequest_def emptyRequest_def started_def
  writeAnswer_defs RegisterCodec_def emptyMediaEngine_def RegisterDefaultInterceptors_def
  NewPeerConnection_def AddTransceiverFromKind_def AddTrack_def OnTrack_def updPeer_def
  updTrack_def newPeerConnection_def Fprint_def WriteHeader_def HeaderAdd_def
  freshResponse_def StatusCreated_def H264Parameters_def addFeedback_def
  peerConnectionConfiguration_def

lemma started_whep:
  "whepHandler okEnv freshResponse okRequest started =
     (Returned,
      started\<lparr>peers := [(whepConn okEnv)
         \<lparr>senders := [0], transceivers := [RTPCodecTypeVideo], rtcpReader := Running,
          hasOnICEConnectionStateChange := True,
          remoteDescription := Some \<lparr>Type = SDPTypeOffer, SDP = ''v=0;offer''\<rparr>,
          localDescription := Some \<lparr>Type = SDPTypeAnswer, SDP = ''v=0;''\<rparr>,
          localCandidates := [''a=candidate:1;''],
          iceGatheringState := ICEGatheringStateComplete\<rparr>],
        tracks := [(tracks started ! 0)\<lparr>bindings := [0]\<rparr>]\<rparr>,
      \<lparr>Header = [(''Location'', ''/whep'')], sent = Some (201, [(''Location'', ''/whep'')]),
       body = ''v=0;a=candidate:1;''\<rparr>,
      [DidSetRemoteDescription, DidCreateAnswer, DidSetLocalDescription,
       GatherCompleteFired, DidHeaderAdd ''Location'' ''/whep'',
       DidWriteHeader 201, DidWriteBody ''v=0;a=candidate:1;''])"
  by (simp add: handler_eval whepConn_def)

lemma never_gathered_whip:
  "whipHandler (okEnv\<lparr>gathering := None\<rparr>) freshResponse okRequest started =
     (Blocked,
      started\<lparr>peers := [(whipConn okEnv)
         \<lparr>transceivers := [RTPCodecTypeVideo], hasOnTrack := True,
          hasOnICEConnectionStateChange := True,
          remoteDescription := Some \<lparr>Type = SDPTypeOffer, SDP = ''v=0;offer''\<rparr>,
          localDescription := Some \<lparr>Type = SDPTypeAnswer, SDP = ''v=0;''\<rparr>,
          iceGatheringState := ICEGatheringStateGathering\<rparr>]\<rparr>,
      freshResponse,
      [DidSetRemoteDescription, DidCreateAnswer, DidSetLocalDescription])"
  by (simp add: handler_eval whipConn_def)

subsection \<open>The answer is written after gathering\<close>

text \<open>
  C1. When a handler registered for a path returns, gathering has completed, and in the
  history of \<open>writeAnswer\<close>'s calls the write of the body comes after the
  gathering-complete signal and no write of a body comes before it. The body is the
  SDP of the connection's local description as it is then: the answer created, followed
  by every candidate gathered. When the handler does not return (it panicked, or
  gathering never completes and it waits forever), nothing at all has been written to
  the response.
\<close>

theorem answer_written_after_gathering:
  assumes "route path = Some h"
      and "h env freshResponse req s = (exit, s', res', acts)"
  shows "(exit = Returned \<longrightarrow>
           (\<exists>cs sdp before after.
              gathering env = Some cs \<and> createAnswerResult env = Inr sdp \<and>
              acts = before @ GatherCompleteFired # after \<and>
              (\<forall>b. DidWriteBody b \<notin> set before) \<and>
              DidWriteBody (body res') \<in> set after \<and>
              iceGatheringState (last (peers s')) = ICEGatheringStateComplete \<and>
              localCandidates (last (peers s')) = cs \<and>
              map_option SDP (LocalDescription (last (peers s'))) = Some (body res') \<and>
              body res' = sdp @ concat cs))
       \<and> (exit \<noteq> Returned \<longrightarrow>
            res' = freshResponse \<and> (\<forall>b. DidWriteBody b \<notin> set acts))"
proof (cases "exit = Returned")
  case True
  with handler_cases[OF assms] obtain offer pc pc' where
    w: "writeAnswer env freshResponse pc offer path = (Returned, pc', res', acts)"
    and p: "peers s' = peers s @ [pc']" by blast
  from writeAnswer_Returned[OF w] obtain cs sdp where
    g: "gathering env = Some cs" and c: "createAnswerResult env = Inr sdp"
    and d: "LocalDescription pc' = Some \<lparr>Type = SDPTypeAnswer, SDP = sdp @ concat cs\<rparr>"
    and i: "iceGatheringState pc' = ICEGatheringStateComplete" "localCandidates pc' = cs"
    and r: "res' = Fprint (sdp @ concat cs)
                    (WriteHeader StatusCreated (HeaderAdd ''Location'' path freshResponse))"
    and a: "acts = [DidSetRemoteDescription, DidCreateAnswer, DidSetLocalDescription]
                   @ GatherCompleteFired #
                   [DidHeaderAdd ''Location'' path,
                   DidWriteHeader StatusCreated, DidWriteBody (sdp @ concat cs)]"
    by auto
  from r fresh_response_written[of "sdp @ concat cs" path]
  have b: "body res' = sdp @ concat cs" by simp
  have "\<exists>cs sdp before after.
              gathering env = Some cs \<and> createAnswerResult env = Inr sdp \<and>
              acts = before @ GatherCompleteFired # after \<and>
              (\<forall>b. DidWriteBody b \<notin> set before) \<and>
              DidWriteBody (body res') \<in> set after \<and>
              iceGatheringState (last (peers s')) = ICEGatheringStateComplete \<and>
              localCandidates (last (peers s')) = cs \<and>
              map_option SDP (LocalDescription (last (peers s'))) = Some (body res') \<and>
              body res' = sdp @ concat cs"
    apply (rule exI[of _ cs])
    apply (rule exI[of _ sdp])
    apply (rule exI[of _ "[DidSetRemoteDescription, DidCreateAnswer, DidSetLocalDescription]"])
    apply (rule exI[of _ "[DidHeaderAdd ''Location'' path, DidWriteHeader StatusCreated,
                          DidWriteBody (sdp @ concat cs)]"])
    using g c d i b a p by simp
  with True show ?thesis by simp
next
  case False
  from handler_cases[OF assms] writeAnswer_not_Returned False
  show ?thesis by auto
qed

theorem answer_written_after_gathering_witness:
  "route ''/whep'' = Some whepHandler \<and>
   fst (whepHandler okEnv freshResponse okRequest started) = Returned \<and>
   (\<exists>before after.
      snd (snd (snd (whepHandler okEnv freshResponse okRequest started)))
        = before @ GatherCompleteFired # after \<and>
      (\<forall>b. DidWriteBody b \<notin> set before) \<and>
      DidWriteBody ''v=0;a=candidate:1;'' \<in> set after) \<and>
   route ''/whip'' = Some whipHandler \<and>
   fst (whipHandler (okEnv\<lparr>gathering := None\<rparr>) freshResponse okRequest started) = Blocked \<and>
   fst (snd (snd (whipHandler (okEnv\<lparr>gathering := None\<rparr>) freshResponse okRequest started)))
     = freshResponse"
proof -
  have r1: "route ''/whep'' = Some whepHandler" and r2: "route ''/whip'' = Some whipHandler"
    by (simp_all add: route_def)
  from answer_written_after_gathering[OF r1 started_whep]
  have "\<exists>before after.
      [DidSetRemoteDescription, DidCreateAnswer, DidSetLocalDescription,
       GatherCompleteFired, DidHeaderAdd ''Location'' ''/whep'',
       DidWriteHeader 201, DidWriteBody ''v=0;a=candidate:1;'']
        = before @ GatherCompleteFired # after \<and>
      (\<forall>b. DidWriteBody b \<notin> set before) \<and>
      DidWriteBody ''v=0;a=candidate:1;'' \<in> set after"
    by auto
  moreover from answer_written_after_gathering[OF r2 never_gathered_whip]
  have "freshResponse = freshResponse" by simp
  ultimately show ?thesis using r1 r2 by (simp add: started_whep never_gathered_whip)
qed

subsection \<open>A malformed offer\<close>

lemma handler_tracks:
  assumes "route path = Some h" and "h env res req s = (exit, s', res', acts)"
  shows "(path = ''/whip'' \<longrightarrow> tracks s' = tracks s) \<and>
         (path = ''/whep'' \<and> \<not> reachesWriteAnswer path env req s \<longrightarrow> tracks s' = tracks s) \<and>
         (path = ''/whep'' \<and> reachesWriteAnswer path env req s \<longrightarrow>
            (\<exists>t. videoTrack s = Some t \<and>
                 tracks s' = (tracks s)[t := (tracks s ! t)
                   \<lparr>bindings := bindings (tracks s ! t) @ [length (peers s)]\<rparr>]))"
  using route_cases[OF assms(1)]
proof
  assume a: "path = ''/whip'' \<and> h = whipHandler"
  with assms(2) have "whipHandler env res req s = (exit, s', res', acts)" by simp
  from whipHandler_cases[OF this] a show ?thesis by auto
next
  assume a: "path = ''/whep'' \<and> h = whepHandler"
  with assms(2) have "whepHandler env res req s = (exit, s', res', acts)" by simp
  from whepHandler_cases[OF this] a show ?thesis by auto
qed

text \<open>
  C5, as the spec states it, fails on the code. With an engine that rejects the empty
  offer, a request with an empty body ends in a panic with the engine's error, on
  either path: no status and no body are sent to the caller, and the connection created
  for the request is on the heap, open. On \<open>/whep\<close> the relay track has changed as
  well: \<open>AddTrack\<close> came before the offer was looked at, and the new connection is now
  among the track's consumers.
\<close>

theorem malformed_offer_counterexample:
  "(case whipHandler okEnv freshResponse emptyRequest started of
      (exit, s', res', acts) \<Rightarrow>
        exit = Panicked (Err ''MalformedOffer'') \<and> sent res' = None \<and> body res' = [] \<and>
        peers started = [] \<and> length (peers s') = 1 \<and> isClosed (peers s' ! 0) = False) \<and>
   (case whepHandler okEnv freshResponse emptyRequest started of
      (exit, s', res', acts) \<Rightarrow>
        exit = Panicked (Err ''MalformedOffer'') \<and> sent res' = None \<and> body res' = [] \<and>
        length (peers s') = 1 \<and> isClosed (peers s' ! 0) = False \<and>
        map bindings (tracks started) = [[]] \<and> map bindings (tracks s') = [[0]])"
  by (simp add: handler_eval)

text \<open>
  C5, amended. For every request whose offer \<open>SetRemoteDescription\<close> rejects, the
  handler panics and leaves the response untouched: no header, no status, no body, and
  \<open>writeAnswer\<close> has made no further call. When the calls before \<open>writeAnswer\<close>
  succeed, the panic carries the error of \<open>SetRemoteDescription\<close>, and the connection
  created for the request has been added to the heap, open and without a remote
  description, the earlier connections staying as they were. The Relay Track's state
  is unchanged on \<open>/whip\<close>, and on \<open>/whep\<close> when a call before \<open>writeAnswer\<close> fails.
  On \<open>/whep\<close> otherwise it has changed in one way only: the new connection has been
  added at the end of the consumers of the track the global \<open>videoTrack\<close> points to,
  and stays there. The global itself is unchanged.
\<close>

theorem malformed_offer_panics:
  assumes "route path = Some h"
      and "Body req = Inr offer"
      and "setRemoteDescriptionErr env \<lparr>Type = SDPTypeOffer, SDP = offer\<rparr> = Some err"
      and "h env res req s = (exit, s', res', acts)"
  shows "(\<exists>e. exit = Panicked e) \<and> res' = res \<and> acts = [] \<and>
         videoTrack s' = videoTrack s \<and>
         (reachesWriteAnswer path env req s \<longrightarrow>
            exit = Panicked err \<and> length (peers s') = Suc (length (peers s)) \<and>
            take (length (peers s)) (peers s') = peers s \<and>
            isClosed (last (peers s')) = False \<and> remoteDescription (last (peers s')) = None) \<and>
         (path = ''/whip'' \<longrightarrow> tracks s' = tracks s) \<and>
         (path = ''/whep'' \<and> \<not> reachesWriteAnswer path env req s \<longrightarrow> tracks s' = tracks s) \<and>
         (path = ''/whep'' \<and> reachesWriteAnswer path env req s \<longrightarrow>
            (\<exists>t. videoTrack s = Some t \<and>
                 tracks s' = (tracks s)[t := (tracks s ! t)
                   \<lparr>bindings := bindings (tracks s ! t) @ [length (peers s)]\<rparr>]))"
proof -
  have main: "(\<exists>e. exit = Panicked e) \<and> res' = res \<and> acts = [] \<and>
         videoTrack s' = videoTrack s \<and>
         (reachesWriteAnswer path env req s \<longrightarrow>
            exit = Panicked err \<and> length (peers s') = Suc (length (peers s)) \<and>
            take (length (peers s)) (peers s') = peers s \<and>
            isClosed (last (peers s')) = False \<and> remoteDescription (last (peers s')) = None)"
    using handler_cases[OF assms(1,4)]
  proof
    assume "res' = res \<and> acts = [] \<and> (\<exists>e. exit = Panicked e) \<and>
            \<not> reachesWriteAnswer path env req s \<and> videoTrack s' = videoTrack s"
    then show ?thesis by simp
  next
    assume "\<exists>offer pc pc'. Body req = Inr offer \<and>
               writeAnswer env res pc offer path = (exit, pc', res', acts) \<and>
               peers s' = peers s @ [pc'] \<and> videoTrack s' = videoTrack s \<and>
               isClosed pc = False \<and> remoteDescription pc = None \<and> received pc = [] \<and>
               reachesWriteAnswer path env req s"
    then obtain pc pc' where
      w: "writeAnswer env res pc offer path = (exit, pc', res', acts)"
      and p: "peers s' = peers s @ [pc']" and v: "videoTrack s' = videoTrack s"
      and c: "isClosed pc = False" "remoteDescription pc = None"
      using assms(2) by auto
    from writeAnswer_rejected[OF w assms(3)] p v c show ?thesis
      by simp
  qed
  from main handler_tracks[OF assms(1,4)] show ?thesis by (intro conjI) blast+
qed

theorem malformed_offer_panics_witness:
  "route ''/whep'' = Some whepHandler \<and> Body emptyRequest = Inr [] \<and>
   setRemoteDescriptionErr okEnv \<lparr>Type = SDPTypeOffer, SDP = []\<rparr>
     = Some (Err ''MalformedOffer'') \<and>
   reachesWriteAnswer ''/whep'' okEnv emptyRequest started \<and>
   fst (whepHandler okEnv freshResponse emptyRequest started)
     = Panicked (Err ''MalformedOffer'') \<and>
   fst (snd (snd (whepHandler okEnv freshResponse emptyRequest started))) = freshResponse \<and>
   length (peers (fst (snd (whepHandler okEnv freshResponse emptyRequest started)))) = 1 \<and>
   map bindings (tracks (fst (snd (whepHandler okEnv freshResponse emptyRequest started))))
     = [[0]] \<and>
   route ''/whip'' = Some whipHandler \<and>
   reachesWriteAnswer ''/whip'' okEnv emptyRequest started \<and>
   fst (whipHandler okEnv freshResponse emptyRequest started)
     = Panicked (Err ''MalformedOffer'') \<and>
   tracks (fst (snd (whipHandler okEnv freshResponse emptyRequest started))) = tracks started \<and>
   reachesWriteAnswer ''/whep'' (okEnv\<lparr>addTrackErr := Some (Err ''no track'')\<rparr>)
     emptyRequest started = False \<and>
   tracks (fst (snd (whepHandler (okEnv\<lparr>addTrackErr := Some (Err ''no track'')\<rparr>)
                       freshResponse emptyRequest started))) = tracks started"
proof -
  let ?X = "whepHandler okEnv freshResponse emptyRequest started"
  let ?Y = "whipHandler okEnv freshResponse emptyRequest started"
  let ?env = "okEnv\<lparr>addTrackErr := Some (Err ''no track'')\<rparr>"
  let ?Z = "whepHandler ?env freshResponse emptyRequest started"
  have r: "route ''/whep'' = Some whepHandler" and r': "route ''/whip'' = Some whipHandler"
    by (simp_all add: route_def)
  have b: "Body emptyRequest = Inr []" by (simp add: emptyRequest_def)
  have e: "setRemoteDescriptionErr okEnv \<lparr>Type = SDPTypeOffer, SDP = []\<rparr>
             = Some (Err ''MalformedOffer'')"
    and e': "setRemoteDescriptionErr ?env \<lparr>Type = SDPTypeOffer, SDP = []\<rparr>
             = Some (Err ''MalformedOffer'')"
    by (simp_all add: okEnv_def)
  have g: "reachesWriteAnswer ''/whep'' okEnv emptyRequest started"
    and g': "reachesWriteAnswer ''/whip'' okEnv emptyRequest started"
    and g'': "reachesWriteAnswer ''/whep'' ?env emptyRequest started = False"
    by (simp_all add: reachesWriteAnswer_def okEnv_def emptyRequest_def started_def)
  have x: "?X = (fst ?X, fst (snd ?X), fst (snd (snd ?X)), snd (snd (snd ?X)))"
    and y: "?Y = (fst ?Y, fst (snd ?Y), fst (snd (snd ?Y)), snd (snd (snd ?Y)))"
    and z: "?Z = (fst ?Z, fst (snd ?Z), fst (snd (snd ?Z)), snd (snd (snd ?Z)))"
    by simp_all
  have p: "peers started = []" "videoTrack started = Some 0"
    "(tracks started)[0 := (tracks started ! 0)
        \<lparr>bindings := bindings (tracks started ! 0) @ [0]\<rparr>]
       = [(tracks started ! 0)\<lparr>bindings := [0]\<rparr>]"
    by (simp_all add: started_def)
  from malformed_offer_panics[OF r b e x] g p
  have 1: "fst ?X = Panicked (Err ''MalformedOffer'')"
    "fst (snd (snd ?X)) = freshResponse" "length (peers (fst (snd ?X))) = 1"
    "map bindings (tracks (fst (snd ?X))) = [[0]]"
    by simp_all
  from malformed_offer_panics[OF r' b e y] g'
  have 2: "fst ?Y = Panicked (Err ''MalformedOffer'')"
    "tracks (fst (snd ?Y)) = tracks started"
    by simp_all
  from malformed_offer_panics[OF r b e' z] g''
  have 3: "tracks (fst (snd ?Z)) = tracks started" by simp
  from r r' b e g g' g'' 1 2 3 show ?thesis by (intro conjI)
qed

subsection \<open>Facts about the goroutines and the running process\<close>

lemma live_eq:
  "live = started\<lparr>peers := [pubConn, subConn], tracks := [(tracks started ! 0)\<lparr>bindings := [1]\<rparr>]\<rparr>"
  by (simp add: live_def step_def handler_eval whepConn_def whipConn_def pubConn_def subConn_def)

lemma conn_flags:
  "hasOnTrack pubConn" "\<not> isClosed pubConn" "\<not> hasOnTrack subConn" "\<not> isClosed subConn"
  "rtcpReader subConn = Running" "received subConn = []" "received pubConn = []"
  "hasOnICEConnectionStateChange pubConn" "hasOnICEConnectionStateChange subConn"
  by (simp_all add: pubConn_def subConn_def whipConn_def whepConn_def newPeerConnection_def)

lemma WriteRTP_videoTrack: "videoTrack (snd (WriteRTP w pkt t s)) = videoTrack s"
  by (simp add: WriteRTP_def)

lemma forwardPacket_result:
  "videoTrack s = Some t \<Longrightarrow> fst (forwardPacket r w s) = failure (r, w)"
  by (auto simp: forwardPacket_def failure_def WriteRTP_def split: sum.splits)

lemma forwardPacket_videoTrack:
  "videoTrack (snd (forwardPacket r w s)) = videoTrack s"
  by (auto simp: forwardPacket_def WriteRTP_def split: sum.splits option.splits)

lemma readLoop_first_failure:
  "videoTrack s = Some t \<Longrightarrow>
     fst (readLoop script s) =
       (case List.map_filter failure script of [] \<Rightarrow> InLoop | e # _ \<Rightarrow> LoopPanicked e)"
proof (induction script arbitrary: s)
  case Nil
  then show ?case by (simp add: List.map_filter_simps)
next
  case (Cons rw script)
  obtain r w where rw: "rw = (r, w)" by (cases rw)
  obtain x s' where f: "forwardPacket r w s = (x, s')" by (cases "forwardPacket r w s")
  from forwardPacket_result[OF Cons.prems, of r w] f have x: "failure (r, w) = x" by simp
  from forwardPacket_videoTrack[of r w s] f Cons.prems have v: "videoTrack s' = Some t" by simp
  show ?case
  proof (cases x)
    case None
    with Cons.IH[OF v] rw f x show ?thesis by (simp add: List.map_filter_simps)
  next
    case (Some e)
    with rw f x show ?thesis by (simp add: List.map_filter_simps)
  qed
qed

lemma readLoop_stops:
  "failure rw = Some e \<Longrightarrow> videoTrack s = Some t \<Longrightarrow> readLoop (pre @ rw # post) s = readLoop (pre @ [rw]) s"
proof (induction pre arbitrary: s)
  case Nil
  obtain r w where rw: "rw = (r, w)" by (cases rw)
  obtain x s' where f: "forwardPacket r w s = (x, s')" by (cases "forwardPacket r w s")
  from forwardPacket_result[OF Nil.prems(2), of r w] f Nil.prems(1) rw have x: "x = Some e" by simp
  with rw f show ?case by simp
next
  case (Cons a pre)
  obtain r w where a: "a = (r, w)" by (cases a)
  obtain x s' where f: "forwardPacket r w s = (x, s')" by (cases "forwardPacket r w s")
  from forwardPacket_videoTrack[of r w s] f Cons.prems have v: "videoTrack s' = Some t" by simp
  from Cons.IH[OF Cons.prems(1) v] a f show ?case by (cases x) simp_all
qed

lemma readRTCPLoop_first_error:
  "readRTCPLoop rs = (case List.map_filter id rs of [] \<Rightarrow> InLoop | e # _ \<Rightarrow> LoopPanicked e)"
  by (induction rs) (auto simp: List.map_filter_simps split: option.splits)

lemma run_crashed: "crashed s \<noteq> None \<Longrightarrow> run evs s = s"
  by (induction evs arbitrary: s) (auto simp: step_def)

lemma senderReadLoop_never_panics: "senderReadLoop rs \<noteq> LoopPanicked e"
  by (induction rs) (auto split: option.splits)

lemma senderReadLoop_first_error:
  "senderReadLoop (replicate n None @ Some err # rest) = LoopReturned"
  by (induction n) auto

subsection \<open>Errors in the publisher's goroutines\<close>

text \<open>
  C4, as the spec states it, fails on the code. In the process with one publisher
  (connection 0) and one subscriber (connection 1), the publisher's loop is handed
  three packets and \<open>WriteRTP\<close> returns an error for the second: the loop ends in a
  panic at the second packet, the third is never forwarded, and the panic ends the
  process.
\<close>

theorem read_loop_error_counterexample:
  "fst (readLoop [(Inr 1, delivered), (Inr 2, writeFailed), (Inr 3, delivered)] live)
     = LoopPanicked (Err ''io: closed pipe'') \<and>
   map received (peers (snd (readLoop [(Inr 1, delivered), (Inr 2, writeFailed), (Inr 3, delivered)] live)))
     = [[], [1]] \<and>
   crashed live = None \<and>
   crashed (step (ReadRTP 0 (Inr 2) writeFailed) live) = Some (Err ''io: closed pipe'')"
  by (simp add: live_eq started_def conn_flags forwardPacket_def WriteRTP_def consumers_def
        deliverTo_def delivered_def writeFailed_def step_def panicWith_def)

text \<open>
  C4, amended. Every error in the publisher's goroutines goes to \<open>panic\<close>. The read
  loop ends with the first error that \<open>ReadRTP\<close> or \<open>WriteRTP\<close> returns and is
  still in the loop when there is none; what follows the failing turn is never read
  or forwarded. The RTCP goroutine ends with the first error of \<open>ReadRTCP\<close>. In the
  running process such a failing turn of an open publisher sets the process to
  crashed with that error, and after that no event changes anything.
\<close>

theorem read_loop_error_panics:
  assumes "videoTrack s = Some t"
  shows "fst (readLoop script s) =
           (case List.map_filter failure script of [] \<Rightarrow> InLoop | e # _ \<Rightarrow> LoopPanicked e) \<and>
         (failure rw \<noteq> None \<longrightarrow> readLoop (pre @ rw # post) s = readLoop (pre @ [rw]) s) \<and>
         readRTCPLoop rs =
           (case List.map_filter id rs of [] \<Rightarrow> InLoop | e # _ \<Rightarrow> LoopPanicked e) \<and>
         (crashed s = None \<and> i < length (peers s) \<and> hasOnTrack (peers s ! i) \<and>
          isClosed (peers s ! i) = False \<longrightarrow>
            (failure (r, w) = Some e \<longrightarrow> crashed (step (ReadRTP i r w) s) = Some e) \<and>
            crashed (step (ReadRTCP i (Some e)) s) = Some e) \<and>
         (crashed s = Some e \<longrightarrow> run evs s = s)"
proof -
  have "failure (r, w) = Some e \<Longrightarrow> fst (forwardPacket r w s) = Some e"
    using forwardPacket_result[OF assms, of r w] by simp
  then have "crashed s = None \<and> i < length (peers s) \<and> hasOnTrack (peers s ! i) \<and>
          isClosed (peers s ! i) = False \<longrightarrow>
            (failure (r, w) = Some e \<longrightarrow> crashed (step (ReadRTP i r w) s) = Some e) \<and>
            crashed (step (ReadRTCP i (Some e)) s) = Some e"
    by (auto simp: step_def panicWith_def split: prod.splits option.splits)
  moreover have "failure rw \<noteq> None \<longrightarrow> readLoop (pre @ rw # post) s = readLoop (pre @ [rw]) s"
    using readLoop_stops[of rw _ s t pre post] assms by auto
  moreover have "crashed s = Some e \<longrightarrow> run evs s = s" using run_crashed[of s evs] by simp
  ultimately show ?thesis
    using readLoop_first_failure[OF assms] readRTCPLoop_first_error by simp
qed

theorem read_loop_error_panics_witness:
  "videoTrack live = Some 0 \<and>
   failure (Inr 2, writeFailed) = Some (Err ''io: closed pipe'') \<and>
   fst (readLoop [(Inr 1, delivered), (Inr 2, writeFailed), (Inr 3, delivered)] live)
     = LoopPanicked (Err ''io: closed pipe'') \<and>
   readLoop ([(Inr 1, delivered)] @ (Inr 2, writeFailed) # [(Inr 3, delivered)]) live
     = readLoop ([(Inr 1, delivered)] @ [(Inr 2, writeFailed)]) live \<and>
   readRTCPLoop [None, Some (Err ''EOF'')] = LoopPanicked (Err ''EOF'') \<and>
   crashed (step (ReadRTP 0 (Inr 2) writeFailed) live) = Some (Err ''io: closed pipe'') \<and>
   crashed (step (ReadRTCP 0 (Some (Err ''io: closed pipe''))) live)
     = Some (Err ''io: closed pipe'') \<and>
   run [PostWhep okEnv okRequest] (panicWith (Err ''EOF'') live) = panicWith (Err ''EOF'') live"
proof -
  have v: "videoTrack live = Some 0" by (simp add: live_eq started_def)
  have f: "failure (Inr 2, writeFailed) = Some (Err ''io: closed pipe'')"
    by (simp add: failure_def writeFailed_def)
  have g: "List.map_filter failure [(Inr 1, delivered), (Inr 2, writeFailed), (Inr 3, delivered)]
             = [Err ''io: closed pipe'']"
    by (simp add: List.map_filter_simps failure_def writeFailed_def delivered_def)
  have h: "List.map_filter id [None, Some (Err ''EOF'')] = [Err ''EOF'']"
    by (simp add: List.map_filter_simps)
  have p: "crashed live = None \<and> 0 < length (peers live) \<and> hasOnTrack (peers live ! 0) \<and>
           isClosed (peers live ! 0) = False"
    by (simp add: live_eq started_def conn_flags)
  have v': "videoTrack (panicWith (Err ''EOF'') live) = Some 0"
    by (simp add: panicWith_def v)
  have c: "crashed (panicWith (Err ''EOF'') live) = Some (Err ''EOF'')"
    by (simp add: panicWith_def)
  from read_loop_error_panics[OF v,
         of "[(Inr 1, delivered), (Inr 2, writeFailed), (Inr 3, delivered)]"
            "(Inr 2, writeFailed)" "[(Inr 1, delivered)]" "[(Inr 3, delivered)]"
            "[None, Some (Err ''EOF'')]" 0 "Inr 2" writeFailed "Err ''io: closed pipe''" "[]"]
       read_loop_error_panics[OF v', of "[]" "(Inr 2, writeFailed)" "[]" "[]" "[]" 0
            "Inr 2" writeFailed "Err ''EOF''" "[PostWhep okEnv okRequest]"]
       v f g h p c
  show ?thesis by (auto simp del: readLoop.simps readRTCPLoop.simps run.simps)
qed

subsection \<open>The subscriber's RTCP goroutine\<close>

text \<open>
  C9. The goroutine of \<open>whepHandler\<close> that drains \<open>rtpSender.Read\<close> never panics,
  whatever its reads return, and an error from \<open>Read\<close> makes it return. In the running
  process a turn of this goroutine changes nothing but the goroutine's own state: it
  is over after a failed read (or any read on a closed connection); the process does
  not crash, and every connection and the track stay as they are.
\<close>

theorem sender_read_error_returns:
  "senderReadLoop rs \<noteq> LoopPanicked e \<and>
   senderReadLoop (replicate n None @ Some err # rest) = LoopReturned \<and>
   step (SenderRead i r) s =
     (if crashed s = None \<and> i < length (peers s) \<and> rtcpReader (peers s ! i) = Running \<and>
         (isClosed (peers s ! i) \<or> r \<noteq> None)
      then updPeer i (\<lambda>pc. pc\<lparr>rtcpReader := Exited\<rparr>) s else s)"
  using senderReadLoop_never_panics senderReadLoop_first_error
  by (auto simp: step_def split: option.splits)

theorem sender_read_error_returns_witness:
  "senderReadLoop [None, None, Some (Err ''EOF''), None] = LoopReturned \<and>
   crashed (step (SenderRead 1 (Some (Err ''EOF''))) live) = None \<and>
   map isClosed (peers (step (SenderRead 1 (Some (Err ''EOF''))) live)) = [False, False] \<and>
   map rtcpReader (peers (step (SenderRead 1 (Some (Err ''EOF''))) live))
     = [NotStarted, Exited]"
proof -
  have "senderReadLoop (replicate 2 None @ Some (Err ''EOF'') # [None]) = LoopReturned"
    using sender_read_error_returns[of _ _ 2 "Err ''EOF''" "[None]"] by blast
  moreover have "replicate 2 None @ Some (Err ''EOF'') # [None]
                   = [None, None, Some (Err ''EOF''), None]"
    by (simp add: numeral_2_eq_2)
  moreover have "step (SenderRead 1 (Some (Err ''EOF''))) live
                   = updPeer 1 (\<lambda>pc. pc\<lparr>rtcpReader := Exited\<rparr>) live"
    using sender_read_error_returns[of "[]" "Err []" 0 "Err []" "[]" 1 "Some (Err ''EOF'')" live]
    by (simp add: live_eq conn_flags started_def)
  ultimately show ?thesis
    by (simp add: live_eq conn_flags started_def updPeer_def pubConn_def whipConn_def
          newPeerConnection_def)
qed

subsection \<open>Evaluating the examples\<close>

lemma whip_ok:
  "whipHandler okEnv freshResponse okRequest s =
     (Returned, s\<lparr>peers := peers s @ [pubConn]\<rparr>, okResponse ''/whip'', okActions ''/whip'')"
  by (simp add: whipHandler_def okEnv_def okRequest_def writeAnswer_defs RegisterCodec_def
        emptyMediaEngine_def RegisterDefaultInterceptors_def NewPeerConnection_def
        AddTransceiverFromKind_def OnTrack_def updPeer_def newPeerConnection_def Fprint_def
        WriteHeader_def HeaderAdd_def freshResponse_def StatusCreated_def
        whipConn_def pubConn_def okResponse_def okActions_def)

lemma whep_ok:
  "videoTrack s = Some 0 \<Longrightarrow>
   whepHandler okEnv freshResponse okRequest s =
     (Returned,
      s\<lparr>peers := peers s @ [subConn],
        tracks := (tracks s)[0 := (tracks s ! 0)\<lparr>bindings := bindings (tracks s ! 0) @ [length (peers s)]\<rparr>]\<rparr>,
      okResponse ''/whep'', okActions ''/whep'')"
  by (simp add: whepHandler_def okEnv_def okRequest_def writeAnswer_defs 
        emptyMediaEngine_def NewPeerConnection_def AddTrack_def updTrack_def
        updPeer_def newPeerConnection_def Fprint_def
        WriteHeader_def HeaderAdd_def freshResponse_def StatusCreated_def
        whepConn_def subConn_def okResponse_def okActions_def)

lemmas run_eval =
  step_def whip_ok whep_ok started_def forwardPacket_def WriteRTP_def consumers_def deliverTo_def
  delivered_def writeFailed_def conn_flags panicWith_def iceConnectionStateChanged_def
  Close_def updPeer_def ErrClosed_def

subsection \<open>More than one publisher\<close>

lemma whipHandler_independent:
  "fst (whipHandler env res req s) = fst (whipHandler env res req s2) \<and>
   snd (snd (whipHandler env res req s)) = snd (snd (whipHandler env res req s2))"
  unfolding whipHandler_def
  by (auto simp: Let_def RegisterCodec_def emptyMediaEngine_def RegisterDefaultInterceptors_def
        NewPeerConnection_def AddTransceiverFromKind_def OnTrack_def updPeer_def
      split: sum.splits option.splits prod.splits)

lemma publishers_append:
  "publishers (s\<lparr>peers := peers s @ [pc]\<rparr>) =
     publishers s @ (if hasOnTrack pc \<and> \<not> isClosed pc then [length (peers s)] else [])"
proof -
  have "filter (\<lambda>i. hasOnTrack ((peers s @ [pc]) ! i) \<and> \<not> isClosed ((peers s @ [pc]) ! i)) [0 ..< length (peers s)]
        = filter (\<lambda>i. hasOnTrack (peers s ! i) \<and> \<not> isClosed (peers s ! i)) [0 ..< length (peers s)]"
    by (rule filter_cong) (simp_all add: nth_append)
  then show ?thesis by (simp add: publishers_def)
qed

text \<open>
  C3, as the spec states it, fails on the code. After one \<open>POST /whip\<close> has been
  accepted, a second one is accepted as well, with status 201: two publisher sessions
  are then in being at once, and the packets of both are forwarded to the one relay
  track and reach the subscriber.
\<close>

theorem second_publisher_counterexample:
  "publishers (run [PostWhip okEnv okRequest] started) = [0] \<and>
   fst (whipHandler okEnv freshResponse okRequest (run [PostWhip okEnv okRequest] started))
     = Returned \<and>
   sent (fst (snd (snd (whipHandler okEnv freshResponse okRequest
           (run [PostWhip okEnv okRequest] started)))))
     = Some (201, [(''Location'', ''/whip'')]) \<and>
   publishers (run [PostWhip okEnv okRequest, PostWhip okEnv okRequest] started) = [0, 1] \<and>
   map received (peers (run [PostWhip okEnv okRequest, PostWhip okEnv okRequest,
                             PostWhep okEnv okRequest,
                             ReadRTP 0 (Inr 10) delivered, ReadRTP 1 (Inr 20) delivered]
                          started))
     = [[], [], [10, 20]]"
  by (simp add: run_eval publishers_def okResponse_def upt_rec)

text \<open>
  C3, amended. \<open>whipHandler\<close> does not look at the publishers already there: whether it
  returns, panics or blocks, and what it sends, are the same in every state of the
  process. Whenever it returns, the connection it created is one more publisher next
  to all earlier ones; there is no producer slot, and no request is rejected because a
  publisher is active.
\<close>

theorem whip_accepts_beside_publishers:
  "fst (whipHandler env res req s) = fst (whipHandler env res req s2) \<and>
   snd (snd (whipHandler env res req s)) = snd (snd (whipHandler env res req s2)) \<and>
   (fst (whipHandler env res req s) = Returned \<longrightarrow>
      publishers (fst (snd (whipHandler env res req s))) = publishers s @ [length (peers s)])"
proof -
  have "fst (whipHandler env res req s) = Returned \<longrightarrow>
      publishers (fst (snd (whipHandler env res req s))) = publishers s @ [length (peers s)]"
  proof
    assume r: "fst (whipHandler env res req s) = Returned"
    obtain s' res' acts where h: "whipHandler env res req s = (Returned, s', res', acts)"
      using r by (metis prod.collapse)
    from whipHandler_cases[OF h] obtain offer pc' where
      w: "writeAnswer env res
               ((whipConn env)\<lparr>transceivers := [RTPCodecTypeVideo], hasOnTrack := True\<rparr>)
               offer ''/whip'' = (Returned, pc', res', acts)"
      and s': "s' = s\<lparr>peers := peers s @ [pc']\<rparr>" by auto
    from writeAnswer_frame[OF w] whipConn_fresh[where env = env and ts = "[RTPCodecTypeVideo]" and b = True]
    have "hasOnTrack pc' \<and> \<not> isClosed pc'" by simp
    with s' h show "publishers (fst (snd (whipHandler env res req s))) = publishers s @ [length (peers s)]"
      by (simp add: publishers_append)
  qed
  with whipHandler_independent[of env res req s s2] show ?thesis by blast
qed

theorem whip_accepts_beside_publishers_witness:
  "publishers (started\<lparr>peers := [pubConn]\<rparr>) = [0] \<and>
   fst (whipHandler okEnv freshResponse okRequest (started\<lparr>peers := [pubConn]\<rparr>)) = Returned \<and>
   fst (whipHandler okEnv freshResponse okRequest started) = Returned \<and>
   publishers (fst (snd (whipHandler okEnv freshResponse okRequest
                 (started\<lparr>peers := [pubConn]\<rparr>)))) = [0, 1]"
proof -
  have p: "publishers (started\<lparr>peers := [pubConn]\<rparr>) = [0]"
    by (simp add: publishers_def conn_flags)
  have r: "fst (whipHandler okEnv freshResponse okRequest (started\<lparr>peers := [pubConn]\<rparr>)) = Returned"
    by (simp add: whip_ok)
  from whip_accepts_beside_publishers[of okEnv freshResponse okRequest
         "started\<lparr>peers := [pubConn]\<rparr>" started] p r
  show ?thesis by simp
qed

subsection \<open>ICE failure\<close>

lemma filter_removeAll_other:
  "filter (\<lambda>c. c \<noteq> i) (removeAll i xs) = filter (\<lambda>c. c \<noteq> i) xs"
  by (induction xs) auto

lemma Close_frame:
  "length (peers (Close i s)) = length (peers s) \<and>
   map (filter (\<lambda>c. c \<noteq> i) \<circ> bindings) (tracks (Close i s))
     = map (filter (\<lambda>c. c \<noteq> i) \<circ> bindings) (tracks s) \<and>
   (\<forall>j. j \<noteq> i \<longrightarrow> peers (Close i s) ! j = peers s ! j) \<and>
   (i < length (peers s) \<longrightarrow> peers (Close i s) ! i = (peers s ! i)\<lparr>isClosed := True\<rparr>) \<and>
   map bindings (tracks (Close i s)) = map (removeAll i \<circ> bindings) (tracks s) \<and>
   map codec (tracks (Close i s)) = map codec (tracks s) \<and>
   videoTrack (Close i s) = videoTrack s \<and> crashed (Close i s) = crashed s"
  by (simp add: Close_def updPeer_def comp_def filter_removeAll_other)

text \<open>
  C6, as the spec states it, fails on the code. In the process with a publisher
  (connection 0) and a subscriber (connection 1), the publisher's ICE state becomes
  failed and the callback closes it. The publisher's loop then has its read fail, as
  every read on a closed connection does, and panics: the process has crashed, the
  subscriber with it.
\<close>

theorem ice_failure_counterexample:
  "crashed live = None \<and> map isClosed (peers live) = [False, False] \<and>
   map isClosed (peers (run [ICEConnectionStateChange 0 ICEConnectionStateFailed] live))
     = [True, False] \<and>
   crashed (run [ICEConnectionStateChange 0 ICEConnectionStateFailed,
                 ReadRTP 0 (Inr 1) delivered] live) = Some ErrClosed"
  by (simp add: live_eq run_eval)

text \<open>
  C6, amended. A change of a connection's ICE state to anything but failed changes
  nothing. A change to failed makes the callback close that connection: it is marked
  closed and is removed from the consumers of every track. In either case every other
  connection, the other consumers of each track in their order, the tracks' codecs,
  the global \<open>videoTrack\<close> and the process stay as they were. There is no producer
  slot to release; a closed publisher's goroutines are not stopped, and their next
  read fails and panics, which ends the process.
\<close>

theorem ice_failed_closes_owner:
  "(st \<noteq> ICEConnectionStateFailed \<longrightarrow> step (ICEConnectionStateChange i st) s = s) \<and>
   (crashed s = None \<and> i < length (peers s) \<and> hasOnICEConnectionStateChange (peers s ! i) \<longrightarrow>
      peers (step (ICEConnectionStateChange i ICEConnectionStateFailed) s) ! i
        = (peers s ! i)\<lparr>isClosed := True\<rparr> \<and>
      map bindings (tracks (step (ICEConnectionStateChange i ICEConnectionStateFailed) s))
        = map (removeAll i \<circ> bindings) (tracks s)) \<and>
   length (peers (step (ICEConnectionStateChange i st) s)) = length (peers s) \<and>
   (\<forall>j. j \<noteq> i \<longrightarrow> peers (step (ICEConnectionStateChange i st) s) ! j = peers s ! j) \<and>
   map (filter (\<lambda>c. c \<noteq> i) \<circ> bindings) (tracks (step (ICEConnectionStateChange i st) s))
     = map (filter (\<lambda>c. c \<noteq> i) \<circ> bindings) (tracks s) \<and>
   map codec (tracks (step (ICEConnectionStateChange i st) s)) = map codec (tracks s) \<and>
   videoTrack (step (ICEConnectionStateChange i st) s) = videoTrack s \<and>
   crashed (step (ICEConnectionStateChange i st) s) = crashed s \<and>
   (crashed s = None \<and> i < length (peers s) \<and> hasOnTrack (peers s ! i) \<and>
    isClosed (peers s ! i) \<longrightarrow>
      crashed (step (ReadRTP i r w) s) = Some ErrClosed \<and>
      crashed (step (ReadRTCP i rc) s) = Some ErrClosed)"
  using Close_frame[of i s]
  by (auto simp: step_def iceConnectionStateChanged_def forwardPacket_def panicWith_def)

theorem ice_failed_closes_owner_witness:
  "step (ICEConnectionStateChange 1 ICEConnectionStateDisconnected) live = live \<and>
   map isClosed (peers (step (ICEConnectionStateChange 1 ICEConnectionStateFailed) live))
     = [False, True] \<and>
   map bindings (tracks live) = [[1]] \<and>
   map bindings (tracks (step (ICEConnectionStateChange 1 ICEConnectionStateFailed) live))
     = [[]] \<and>
   peers (step (ICEConnectionStateChange 1 ICEConnectionStateFailed) live) ! 0
     = peers live ! 0 \<and>
   crashed (step (ICEConnectionStateChange 1 ICEConnectionStateFailed) live) = None \<and>
   crashed (step (ReadRTCP 0 None)
              (step (ICEConnectionStateChange 0 ICEConnectionStateFailed) live))
     = Some ErrClosed"
proof -
  have p: "crashed live = None \<and> 1 < length (peers live) \<and>
           hasOnICEConnectionStateChange (peers live ! 1)"
    by (simp add: live_eq started_def conn_flags)
  have b: "map bindings (tracks live) = [[1]]" by (simp add: live_eq started_def)
  have c: "map isClosed (peers live) = [False, False]"
    by (simp add: live_eq started_def conn_flags)
  have q: "crashed (step (ICEConnectionStateChange 0 ICEConnectionStateFailed) live) = None \<and>
           0 < length (peers (step (ICEConnectionStateChange 0 ICEConnectionStateFailed) live)) \<and>
           hasOnTrack (peers (step (ICEConnectionStateChange 0 ICEConnectionStateFailed) live) ! 0) \<and>
           isClosed (peers (step (ICEConnectionStateChange 0 ICEConnectionStateFailed) live) ! 0)"
    by (simp add: live_eq run_eval)
  have d: "ICEConnectionStateDisconnected \<noteq> ICEConnectionStateFailed" by simp
  from ice_failed_closes_owner[of ICEConnectionStateDisconnected 1 live]
       ice_failed_closes_owner[of ICEConnectionStateFailed 1 live]
       ice_failed_closes_owner[of ICEConnectionStateFailed 0
          "step (ICEConnectionStateChange 0 ICEConnectionStateFailed) live" _ _ None]
       p b c q d
  show ?thesis by (simp add: live_eq run_eval)
qed

subsection \<open>Closing a Packet Sink twice\<close>

text \<open>
  C8. In the model of a Packet Sink, when a call of \<open>Close\<close> has returned success, a
  second call returns success whatever the underlying I/O would answer, and leaves the
  sink as it is: the sink is closed and its resource has been released by the first
  call only.
\<close>

theorem close_twice:
  assumes "Writer_Close io w = (None, w')"
  shows "Writer_Close io' w' = (None, w') \<and> isOpen w' = False \<and>
         released w' \<le> Suc (released w)"
  using assms by (auto simp: Writer_Close_def split: if_splits option.splits)

theorem close_twice_witness:
  "Writer_Close None newWriter = (None, newWriter\<lparr>isOpen := False, released := 1\<rparr>) \<and>
   Writer_Close (Some (Err ''disk full'')) (newWriter\<lparr>isOpen := False, released := 1\<rparr>)
     = (None, newWriter\<lparr>isOpen := False, released := 1\<rparr>)"
proof -
  have c: "Writer_Close None newWriter = (None, newWriter\<lparr>isOpen := False, released := 1\<rparr>)"
    by (simp add: Writer_Close_def newWriter_def)
  from close_twice[OF c, of "Some (Err ''disk full'')"] c show ?thesis by simp
qed

subsection \<open>Facts about delivery\<close>

lemma deliverTo_length: "length (deliverTo pkt c ps) = length ps"
  by (simp add: deliverTo_def)

lemma fold_deliverTo_length: "length (fold (deliverTo pkt) cs ps) = length ps"
  by (induction cs arbitrary: ps) (simp_all add: deliverTo_length)

lemma fold_deliverTo_received:
  "distinct cs \<Longrightarrow> i < length ps \<Longrightarrow>
     received (fold (deliverTo pkt) cs ps ! i) =
       received (ps ! i) @ (if i \<in> set cs then [pkt] else [])"
proof (induction cs arbitrary: ps)
  case Nil
  then show ?case by simp
next
  case (Cons c cs)
  have l: "i < length (deliverTo pkt c ps)" using Cons.prems by (simp add: deliverTo_length)
  have d: "distinct cs" and n: "c \<notin> set cs" using Cons.prems by simp_all
  have r: "received (deliverTo pkt c ps ! i) = received (ps ! i) @ (if i = c then [pkt] else [])"
    using Cons.prems by (auto simp: deliverTo_def)
  from Cons.IH[OF d l] r n show ?case by auto
qed

lemma fold_deliverTo_other:
  "i < length ps \<Longrightarrow>
     (fold (deliverTo pkt) cs ps ! i)\<lparr>received := x\<rparr> = (ps ! i)\<lparr>received := x\<rparr>"
proof (induction cs arbitrary: ps)
  case Nil
  then show ?case by simp
next
  case (Cons c cs)
  have l: "i < length (deliverTo pkt c ps)" using Cons.prems by (simp add: deliverTo_length)
  have "(deliverTo pkt c ps ! i)\<lparr>received := x\<rparr> = (ps ! i)\<lparr>received := x\<rparr>"
    using Cons.prems by (cases "i = c") (auto simp: deliverTo_def)
  with Cons.IH[OF l] show ?case by simp
qed

lemma packetsOf_Cons: "packetsOf (ev # evs) = packetsOf [ev] @ packetsOf evs"
proof (cases ev)
  case (ReadRTP i r w)
  then show ?thesis by (cases r) simp_all
qed simp_all

lemma whip_appends:
  "\<exists>ps. peers (fst (snd (whipHandler env res req s))) = peers s @ ps \<and>
        tracks (fst (snd (whipHandler env res req s))) = tracks s \<and>
        videoTrack (fst (snd (whipHandler env res req s))) = videoTrack s \<and>
        crashed (fst (snd (whipHandler env res req s))) = crashed s"
proof -
  obtain exit s' res' acts where h: "whipHandler env res req s = (exit, s', res', acts)"
    by (metis prod.collapse)
  from whipHandler_cases[OF h] h show ?thesis by auto
qed

lemma whep_appends:
  "\<exists>ps. peers (fst (snd (whepHandler env res req s))) = peers s @ ps \<and>
        videoTrack (fst (snd (whepHandler env res req s))) = videoTrack s \<and>
        crashed (fst (snd (whepHandler env res req s))) = crashed s \<and>
        (tracks (fst (snd (whepHandler env res req s))) = tracks s \<or>
         (\<exists>t. ps \<noteq> [] \<and> videoTrack s = Some t \<and>
           tracks (fst (snd (whepHandler env res req s))) =
            (tracks s)[t := (tracks s ! t)\<lparr>bindings := bindings (tracks s ! t) @ [length (peers s)]\<rparr>]))"
proof -
  obtain exit s' res' acts where h: "whepHandler env res req s = (exit, s', res', acts)"
    by (metis prod.collapse)
  from whepHandler_cases[OF h] h show ?thesis by auto
qed

lemma step_Post:
  "crashed s = None \<Longrightarrow>
     step (PostWhip env req) s = fst (snd (whipHandler env freshResponse req s))"
  "crashed s = None \<Longrightarrow>
     step (PostWhep env req) s = fst (snd (whepHandler env freshResponse req s))"
  by (simp_all add: step_def split: prod.splits)

lemma step_ReadRTP:
  "crashed s = None \<Longrightarrow>
   step (ReadRTP j r w) s =
     (if j < length (peers s) \<and> hasOnTrack (peers s ! j) then
        (case (if isClosed (peers s ! j) then Inl ErrClosed else r) of
           Inl err \<Rightarrow> panicWith err s
         | Inr pkt \<Rightarrow>
            (case videoTrack s of
               None \<Rightarrow> panicWith (Err ''nil pointer dereference'') s
             | Some t \<Rightarrow>
                (case writeErr w of
                   None \<Rightarrow> snd (WriteRTP w pkt t s)
                 | Some err \<Rightarrow> panicWith err (snd (WriteRTP w pkt t s)))))
      else s)"
  by (auto simp: step_def forwardPacket_def WriteRTP_def split: sum.splits option.splits)

lemma WriteRTP_received:
  assumes "boundOnce s" and "i < length (peers s)" and "t < length (tracks s)"
  shows "received (peers (snd (WriteRTP w pkt t s)) ! i) =
           received (peers s ! i) @
             (if i \<in> set (bindings (tracks s ! t)) \<and> i \<notin> set (dropped w) then [pkt] else [])"
proof -
  from assms(1,3) have "distinct (bindings (tracks s ! t))"
    by (simp add: boundOnce_def list_all_length)
  then have "distinct (filter (\<lambda>c. c \<notin> set (dropped w)) (bindings (tracks s ! t)))"
    by simp
  from fold_deliverTo_received[OF this assms(2), of pkt] assms(3) show ?thesis
    by (simp add: WriteRTP_def consumers_def)
qed

lemma step_received:
  assumes "boundOnce s" and "i < length (peers s)"
  shows "i < length (peers (step ev s)) \<and>
         (\<exists>xs. received (peers (step ev s) ! i) = received (peers s ! i) @ xs \<and>
               subseq xs (packetsOf [ev]))"
proof (cases "crashed s = None")
  case False
  then have "step ev s = s" by (auto simp: step_def)
  with assms show ?thesis by simp
next
  case True
  show ?thesis
  proof (cases ev)
    case (PostWhip env req)
    with whip_appends[of env freshResponse req s] True assms show ?thesis
      by (auto simp: step_Post nth_append)
  next
    case (PostWhep env req)
    with whep_appends[of env freshResponse req s] True assms show ?thesis
      by (auto simp: step_Post nth_append)
  next
    case (ReadRTP j r w)
    show ?thesis
    proof (cases "videoTrack s")
      case None
      with ReadRTP True assms show ?thesis
        by (auto simp: step_ReadRTP panicWith_def split: sum.splits)
    next
      case (Some t)
      with assms(1) have t: "t < length (tracks s)" by (simp add: boundOnce_def)
      have l: "length (peers (snd (WriteRTP w pkt t s))) = length (peers s)" for pkt
        by (simp add: WriteRTP_def fold_deliverTo_length)
      from ReadRTP True assms Some WriteRTP_received[OF assms t, of w] l show ?thesis
        by (cases r) (auto simp: step_ReadRTP panicWith_def split: sum.splits option.splits)
    qed
  next
    case (ReadRTCP j r)
    with True assms show ?thesis
      by (auto simp: step_def panicWith_def split: option.splits)
  next
    case (SenderRead j r)
    with True assms show ?thesis
      by (cases "i = j") (auto simp: step_def updPeer_def split: option.splits)
  next
    case (ICEConnectionStateChange j st)
    with True assms show ?thesis
      by (cases "i = j") (auto simp: step_def iceConnectionStateChanged_def Close_def updPeer_def)
  qed
qed


lemma boundOnce_peers_grow:
  assumes "boundOnce s" and "tracks s' = tracks s" and "videoTrack s' = videoTrack s"
      and "length (peers s) \<le> length (peers s')"
  shows "boundOnce s'"
proof -
  have "distinct (bindings tr) \<and> (\<forall>c\<in>set (bindings tr). c < length (peers s'))"
    if "tr \<in> set (tracks s')" for tr
  proof -
    from that assms(1,2) have "distinct (bindings tr)"
      and "\<forall>c\<in>set (bindings tr). c < length (peers s)"
      by (simp_all add: boundOnce_def list_all_iff)
    with assms(4) show ?thesis by (meson less_le_trans)
  qed
  moreover from assms(1,2,3)
  have "case videoTrack s' of None \<Rightarrow> True | Some t \<Rightarrow> t < length (tracks s')"
    by (auto simp: boundOnce_def split: option.splits)
  ultimately show ?thesis by (simp add: boundOnce_def list_all_iff)
qed

lemma boundOnce_bind_new:
  assumes "boundOnce s" and "videoTrack s' = videoTrack s"
      and "length (peers s) < length (peers s')"
      and "tracks s' = (tracks s)[t := (tracks s ! t)\<lparr>bindings := bindings (tracks s ! t) @ [length (peers s)]\<rparr>]"
  shows "boundOnce s'"
proof (cases "t < length (tracks s)")
  case False
  with assms(4) have "tracks s' = tracks s" by (simp add: list_update_beyond not_less)
  with assms(1,2,3) show ?thesis by (intro boundOnce_peers_grow[of s s']) simp_all
next
  case True
  let ?n = "length (peers s)"
  let ?tr = "(tracks s ! t)\<lparr>bindings := bindings (tracks s ! t) @ [?n]\<rparr>"
  from True have "tracks s ! t \<in> set (tracks s)" by simp
  with assms(1) have old: "distinct (bindings (tracks s ! t))"
    "\<forall>c\<in>set (bindings (tracks s ! t)). c < ?n"
    by (simp_all add: boundOnce_def list_all_iff)
  then have new: "distinct (bindings ?tr) \<and> (\<forall>c\<in>set (bindings ?tr). c < length (peers s'))"
    using assms(3) by auto
  have "\<forall>tr\<in>set (tracks s'). distinct (bindings tr) \<and> (\<forall>c\<in>set (bindings tr). c < length (peers s'))"
  proof
    fix tr assume "tr \<in> set (tracks s')"
    with assms(4) have "tr = ?tr \<or> tr \<in> set (tracks s)"
      using set_update_subset_insert[of "tracks s" t ?tr] by auto
    then show "distinct (bindings tr) \<and> (\<forall>c\<in>set (bindings tr). c < length (peers s'))"
    proof
      assume "tr = ?tr" with new show ?thesis by simp
    next
      assume "tr \<in> set (tracks s)"
      with assms(1) have "distinct (bindings tr)"
        and "\<forall>c\<in>set (bindings tr). c < length (peers s)"
        by (simp_all add: boundOnce_def list_all_iff)
      with assms(3) show ?thesis by (meson less_trans)
    qed
  qed
  moreover from assms(1,2,4) have "case videoTrack s' of None \<Rightarrow> True | Some t \<Rightarrow> t < length (tracks s')"
    by (auto simp: boundOnce_def split: option.splits)
  ultimately show ?thesis by (simp add: boundOnce_def list_all_iff)
qed

lemma step_boundOnce:
  assumes "boundOnce s"
  shows "boundOnce (step ev s)"
proof (cases "crashed s = None")
  case False
  then have "step ev s = s" by (auto simp: step_def)
  with assms show ?thesis by simp
next
  case True
  show ?thesis
  proof (cases ev)
    case (PostWhip env req)
    from whip_appends[of env freshResponse req s] obtain ps where
      "peers (fst (snd (whipHandler env freshResponse req s))) = peers s @ ps"
      "tracks (fst (snd (whipHandler env freshResponse req s))) = tracks s"
      "videoTrack (fst (snd (whipHandler env freshResponse req s))) = videoTrack s"
      by blast
    with assms have "boundOnce (fst (snd (whipHandler env freshResponse req s)))"
      by (intro boundOnce_peers_grow[of s "fst (snd (whipHandler env freshResponse req s))"])
         simp_all
    with PostWhip True show ?thesis by (simp add: step_Post)
  next
    case (PostWhep env req)
    from whep_appends[of env freshResponse req s] obtain ps where
      p: "peers (fst (snd (whepHandler env freshResponse req s))) = peers s @ ps"
      and v: "videoTrack (fst (snd (whepHandler env freshResponse req s))) = videoTrack s"
      and t: "tracks (fst (snd (whepHandler env freshResponse req s))) = tracks s \<or>
         (\<exists>t. ps \<noteq> [] \<and> videoTrack s = Some t \<and>
           tracks (fst (snd (whepHandler env freshResponse req s))) =
            (tracks s)[t := (tracks s ! t)\<lparr>bindings := bindings (tracks s ! t) @ [length (peers s)]\<rparr>])"
      by blast
    from t have "boundOnce (fst (snd (whepHandler env freshResponse req s)))"
    proof
      assume "tracks (fst (snd (whepHandler env freshResponse req s))) = tracks s"
      with assms v p show ?thesis
        by (intro boundOnce_peers_grow[of s "fst (snd (whepHandler env freshResponse req s))"])
           simp_all
    next
      assume "\<exists>t. ps \<noteq> [] \<and> videoTrack s = Some t \<and>
           tracks (fst (snd (whepHandler env freshResponse req s))) =
            (tracks s)[t := (tracks s ! t)\<lparr>bindings := bindings (tracks s ! t) @ [length (peers s)]\<rparr>]"
      then obtain t where "ps \<noteq> []" and
        "tracks (fst (snd (whepHandler env freshResponse req s))) =
            (tracks s)[t := (tracks s ! t)\<lparr>bindings := bindings (tracks s ! t) @ [length (peers s)]\<rparr>]"
        by blast
      with assms v p show ?thesis
        by (intro boundOnce_bind_new[of s "fst (snd (whepHandler env freshResponse req s))" t])
           simp_all
    qed
    with PostWhep True show ?thesis by (simp add: step_Post)
  next
    case (ReadRTP j r w)
    have wr: "boundOnce (snd (WriteRTP w pkt t s))" for pkt t
      using assms
      by (intro boundOnce_peers_grow[of s "snd (WriteRTP w pkt t s)"])
         (simp_all add: WriteRTP_def fold_deliverTo_length)
    have pw: "boundOnce (panicWith e s')" if "boundOnce s'" for e s'
      using that by (auto simp: boundOnce_def panicWith_def split: option.splits)
    have "boundOnce (if j < length (peers s) \<and> hasOnTrack (peers s ! j) then
        (case (if isClosed (peers s ! j) then Inl ErrClosed else r) of
           Inl err \<Rightarrow> panicWith err s
         | Inr pkt \<Rightarrow>
            (case videoTrack s of
               None \<Rightarrow> panicWith (Err ''nil pointer dereference'') s
             | Some t \<Rightarrow>
                (case writeErr w of
                   None \<Rightarrow> snd (WriteRTP w pkt t s)
                 | Some err \<Rightarrow> panicWith err (snd (WriteRTP w pkt t s)))))
      else s)"
      using assms wr pw by (simp split: sum.splits option.splits)
    with ReadRTP True show ?thesis by (simp only: step_ReadRTP)
  next
    case (ReadRTCP j r)
    with True assms show ?thesis
      by (auto simp: step_def panicWith_def boundOnce_def split: option.splits)
  next
    case (SenderRead j r)
    with True assms show ?thesis
      by (auto simp: step_def updPeer_def boundOnce_def split: option.splits)
  next
    case (ICEConnectionStateChange j st)
    from assms have "boundOnce (Close j s)"
      by (auto simp: boundOnce_def list_all_iff Close_def updPeer_def distinct_removeAll
          split: option.splits)
    with ICEConnectionStateChange True assms show ?thesis
      by (simp add: step_def iceConnectionStateChanged_def)
  qed
qed

lemma run_boundOnce: "boundOnce s \<Longrightarrow> boundOnce (run evs s)"
  by (induction evs arbitrary: s) (simp_all add: step_boundOnce)

lemma started_boundOnce: "boundOnce started"
  by (simp add: boundOnce_def started_def)

lemma run_received:
  "boundOnce s \<Longrightarrow> i < length (peers s) \<Longrightarrow>
     i < length (peers (run evs s)) \<and>
     (\<exists>xs. received (peers (run evs s) ! i) = received (peers s ! i) @ xs \<and>
           subseq xs (packetsOf evs))"
proof (induction evs arbitrary: s)
  case Nil
  then show ?case by simp
next
  case (Cons ev evs)
  from step_received[OF Cons.prems, of ev] obtain xs where
    l: "i < length (peers (step ev s))"
    and x: "received (peers (step ev s) ! i) = received (peers s ! i) @ xs"
           "subseq xs (packetsOf [ev])" by blast
  from Cons.IH[OF step_boundOnce[OF Cons.prems(1)] l] obtain ys where
    l': "i < length (peers (run evs (step ev s)))"
    and y: "received (peers (run evs (step ev s)) ! i) = received (peers (step ev s) ! i) @ ys"
           "subseq ys (packetsOf evs)" by blast
  from x(2) y(2) have "subseq (xs @ ys) (packetsOf [ev] @ packetsOf evs)"
    by (rule list_emb_append_mono)
  with x(1) y(1) l' packetsOf_Cons[of ev evs] show ?case by auto
qed

subsection \<open>No replay for a subscriber\<close>

text \<open>
  C2. Take the process after \<open>main\<close> and any run of events, among them the packets the
  publishers have written so far; let \<open>whepHandler\<close> then return for a new subscriber.
  Whatever happens afterwards, the packets the relay track has delivered to that
  subscriber are, in their order, among the packets the publishers' loops read after
  the subscriber was registered: nothing written before \<open>AddTrack\<close> reaches it. In the
  scenario of the spec (packets 1 to 5, subscriber A before packet 1, subscriber B after
  packet 2), A receives 1 to 5 and B receives 3 to 5.
\<close>

theorem no_replay:
  assumes "whepHandler env res req (run before started) = (Returned, s1, res', acts)"
  shows "subseq (received (peers (run after s1) ! length (peers (run before started))))
           (packetsOf after)"
proof -
  let ?s = "run before started"
  have b: "boundOnce ?s" by (rule run_boundOnce[OF started_boundOnce])
  from whepHandler_cases[OF assms] obtain offer t pc' where
    w: "writeAnswer env res
               ((whepConn env)\<lparr>senders := [t], transceivers := [RTPCodecTypeVideo],
                          rtcpReader := Running\<rparr>)
               offer ''/whep'' = (Returned, pc', res', acts)"
    and s1: "s1 = ?s\<lparr>peers := peers ?s @ [pc'],
                    tracks := (tracks ?s)[t := (tracks ?s ! t)
                      \<lparr>bindings := bindings (tracks ?s ! t) @ [length (peers ?s)]\<rparr>]\<rparr>"
    by auto
  from writeAnswer_frame[OF w]
       whepConn_fresh[where ss = "[t]" and ts = "[RTPCodecTypeVideo]" and g = Running]
  have r: "received pc' = []" by simp
  from s1 b have b1: "boundOnce s1" by (intro boundOnce_bind_new[of ?s s1 t]) simp_all
  from s1 have l: "length (peers ?s) < length (peers s1)" by simp
  from s1 r have r1: "received (peers s1 ! length (peers ?s)) = []" by simp
  from run_received[OF b1 l, of after] r1 show ?thesis by auto
qed

theorem no_replay_witness:
  "fst (whepHandler okEnv freshResponse okRequest
          (run [PostWhip okEnv okRequest, PostWhep okEnv okRequest,
                ReadRTP 0 (Inr 1) delivered, ReadRTP 0 (Inr 2) delivered] started)) = Returned \<and>
   length (peers (run [PostWhip okEnv okRequest, PostWhep okEnv okRequest,
                ReadRTP 0 (Inr 1) delivered, ReadRTP 0 (Inr 2) delivered] started)) = 2 \<and>
   subseq
     (received (peers
        (run [ReadRTP 0 (Inr 3) delivered, ReadRTP 0 (Inr 4) delivered, ReadRTP 0 (Inr 5) delivered]
           (fst (snd (whepHandler okEnv freshResponse okRequest
              (run [PostWhip okEnv okRequest, PostWhep okEnv okRequest,
                    ReadRTP 0 (Inr 1) delivered, ReadRTP 0 (Inr 2) delivered] started))))) ! 2))
     (packetsOf [ReadRTP 0 (Inr 3) delivered, ReadRTP 0 (Inr 4) delivered, ReadRTP 0 (Inr 5) delivered]) \<and>
   map received (peers
        (run [ReadRTP 0 (Inr 3) delivered, ReadRTP 0 (Inr 4) delivered, ReadRTP 0 (Inr 5) delivered]
           (fst (snd (whepHandler okEnv freshResponse okRequest
              (run [PostWhip okEnv okRequest, PostWhep okEnv okRequest,
                    ReadRTP 0 (Inr 1) delivered, ReadRTP 0 (Inr 2) delivered] started))))))
     = [[], [1, 2, 3, 4, 5], [3, 4, 5]]"
proof -
  let ?before = "[PostWhip okEnv okRequest, PostWhep okEnv okRequest,
                ReadRTP 0 (Inr 1) delivered, ReadRTP 0 (Inr 2) delivered]"
  let ?after = "[ReadRTP 0 (Inr 3) delivered, ReadRTP 0 (Inr 4) delivered, ReadRTP 0 (Inr 5) delivered]"
  let ?X = "whepHandler okEnv freshResponse okRequest (run ?before started)"
  have v: "videoTrack (run ?before started) = Some 0" by (simp add: run_eval)
  have l: "length (peers (run ?before started)) = 2" by (simp add: run_eval)
  have h: "?X = (Returned, fst (snd ?X), okResponse ''/whep'', okActions ''/whep'')"
    by (simp only: whep_ok[OF v] fst_conv snd_conv)
  have m: "map received (peers (run ?after (fst (snd ?X)))) = [[], [1, 2, 3, 4, 5], [3, 4, 5]]"
    by (simp add: run_eval)
  from h have r: "fst ?X = Returned" by (metis fst_conv)
  from no_replay[OF h, of ?after]
  have n: "subseq (received (peers (run ?after (fst (snd ?X))) ! 2)) (packetsOf ?after)"
    by (simp only: l)
  show ?thesis by (rule conjI[OF r conjI[OF l conjI[OF n m]]])
qed

subsection \<open>Facts about the relay track\<close>
















subsection \<open>One relay track, one codec\<close>



end
